theory Spec2Isabelle
  imports Complex_Main
begin

section \<open>MediTrack: the store, the read cache and the workflow functions of main14.py\<close>

text \<open>
  The program is one Python module over one shared sqlite3 connection (\<open>conn\<close>) and a set of
  Streamlit \<open>@st.cache_data\<close> accessors. The embedding follows the module function by
  function: a table is the list of its rows in rowid order, a row is a record whose fields
  are the columns the module names, the connection is a pair of databases (what is committed,
  and what the connection sees, which includes its open transaction), and every function of
  the module is a function from the world to a result and the new world.
\<close>

subsection \<open>Rows and tables\<close>

text \<open>
  Column names are the source's; where two tables share a column name (\<open>SupplierID\<close>,
  \<open>Status\<close>) the field carries a short table prefix. Columns that no workflow function
  names and that the schema fills by default (timestamps, read flags, the descriptive text
  columns of \<open>Drugs\<close>) are left out. \<open>D_Price\<close> and \<open>Amount\<close> are SQL REAL columns, taken
  as real numbers; ids, quantities and stock counts are Python integers.
\<close>

record drug =
  D_id :: int
  D_Name :: string
  D_Price :: real
  D_IsDiscontinued :: bool
  stock_no :: int

record customer =
  C_id :: int
  C_Name :: string
  C_Password :: string
  C_Email :: string
  C_State :: string
  C_Number :: string

record order_row =
  O_id :: int
  O_Name :: string
  O_Items :: string
  O_Qty :: int
  O_Date :: string

record supplier =
  S_SupplierID :: int
  S_SupplierName :: string
  S_ContactEmail :: string
  S_ContactNumber :: string
  S_Address :: string
  S_SupplierPassword :: string

record retail_pharmacy =
  RP_PharmacyID :: int
  RP_PharmacyName :: string
  RP_PharmacyEmail :: string
  RP_PharmacyPassword :: string
  RP_Address :: string
  RP_PhoneNumber :: string
  RP_BillingAddress :: "string option"
  RP_TaxID :: "string option"
  RP_SupplierID :: int

text \<open>
  \<open>create_restock_order\<close> inserts a restock order without naming \<open>PaymentStatus\<close>; the
  column then holds the schema's default, which the module does not show: \<open>None\<close> here.
\<close>

record restock_order =
  RO_RestockID :: int
  RO_SupplierID :: int
  RO_DrugID :: int
  RO_Quantity :: int
  RO_Status :: string
  RO_PaymentStatus :: "string option"

record ticket =
  T_TicketID :: int
  T_RestockID :: int
  T_SupplierID :: int
  T_Status :: string

record payment =
  P_PaymentID :: int
  P_PharmacyID :: int
  P_SupplierID :: int
  P_Amount :: real
  P_PaymentMethodID :: int
  P_Status :: string
  P_Notes :: "string option"
  P_TransactionReference :: string

record payment_method =
  PM_PaymentMethodID :: int
  PM_MethodName :: string
  PM_Description :: string

record pharmacy_payment =
  PP_PharmacyID :: int
  PP_PaymentMethodID :: int
  PP_AccountDetails :: string
  PP_IsDefault :: bool

text \<open>
  The notification text is the f-string
  \<^verbatim>\<open>f"Payment of ${amount} initiated for Restock ID {restock_id}"\<close>; it is kept as its two
  interpolated values, since the rendering of a Python float is not part of the model.
\<close>

datatype notification_text = Payment_initiated real int

record supplier_notification =
  SN_NotificationID :: int
  SN_SupplierID :: int
  SN_Title :: string
  SN_Message :: notification_text
  SN_RelatedEntityType :: string
  SN_RelatedEntityID :: int

record db =
  Drugs :: "drug list"
  Customers :: "customer list"
  Orders :: "order_row list"
  Suppliers :: "supplier list"
  RetailPharmacies :: "retail_pharmacy list"
  RestockOrders :: "restock_order list"
  Tickets :: "ticket list"
  Payments :: "payment list"
  PaymentMethods :: "payment_method list"
  PharmacyPayments :: "pharmacy_payment list"
  SupplierNotifications :: "supplier_notification list"

subsection \<open>The read cache\<close>

text \<open>
  One slot per \<open>@st.cache_data\<close> accessor: \<open>None\<close> when nothing is cached, otherwise the
  snapshot the accessor returned. \<open>fetch_supplier_notifications\<close> takes an argument, so its
  slot is keyed by it. Expiry after the time-to-live is an event of the environment and is
  not modelled: a slot is emptied only by the accessor's \<open>.clear()\<close>.
\<close>

record caches =
  cached_fetch_payment_methods :: "(string \<rightharpoonup> int) option"
  cached_check_low_stock :: "drug list option"
  cached_fetch_all_drugs :: "drug list option"
  cached_fetch_all_customers :: "customer list option"
  cached_fetch_all_orders :: "order_row list option"
  cached_fetch_all_tickets :: "ticket list option"
  cached_fetch_all_restock_orders :: "restock_order list option"
  cached_fetch_all_suppliers :: "supplier list option"
  cached_fetch_all_payments :: "payment list option"
  cached_fetch_supplier_notifications :: "int \<rightharpoonup> supplier_notification list"

subsection \<open>The world, exceptions and results\<close>

text \<open>
  \<open>committed\<close> is what the database file holds, \<open>working\<close> is what the connection reads and
  writes: sqlite3 opens a transaction before the first INSERT or UPDATE and keeps it open
  until \<open>conn.commit()\<close>; the module never rolls back. \<open>faults\<close> is the environment's script
  of store failures: each call of \<open>execute\<close>, \<open>executemany\<close> or \<open>commit\<close> consumes one entry,
  and \<open>True\<close> makes that call raise \<open>sqlite3.OperationalError\<close>; an empty script means that
  the store never fails.
\<close>

record world =
  committed :: db
  working :: db
  faults :: "bool list"
  cache :: caches

datatype exn =
    OperationalError
  | IntegrityError
  | NameError string
  | TypeError
  | KeyError string

text \<open>
  The messages the functions return, one constructor per literal or f-string of the module:
  \<^item> \<open>Payment_method_added\<close>: "Payment method added successfully!"
  \<^item> \<open>Error_adding_payment_method e\<close>: f"Error adding payment method: {str(e)}"
  \<^item> \<open>Payment_created\<close>: "Payment created successfully!"
  \<^item> \<open>Error_creating_payment e\<close>: f"Error creating payment: {str(e)}"
  \<^item> \<open>Restock_order_created\<close>: "Restock order and ticket created successfully!"
  \<^item> \<open>Error_creating_restock_order e\<close>: f"Error creating restock order: {str(e)}"
  \<^item> \<open>Stock_updated_to_200\<close>: "Stock updated to 200 and restock status updated!"
  \<^item> \<open>Error_updating_stock e\<close>: f"Error updating stock: {str(e)}"
  \<^item> \<open>Drug_not_found\<close>: "Drug not found."
  \<^item> \<open>Not_enough_stock n\<close>: f"Not enough stock available. Current stock: {current_stock}"
  \<^item> \<open>Stock_updated\<close>: "Stock updated successfully."
  \<^item> \<open>Customer_added\<close>: "Customer added successfully!"
  \<^item> \<open>Email_already_exists\<close>: "Error: Email already exists."
  \<^item> \<open>Error e\<close>: f"Error: {str(e)}"
  \<^item> \<open>Order_added\<close>: "Order added successfully with payment!"
  \<^item> \<open>Pharmacist_created\<close>: "Retail Pharmacist account created successfully!"
  \<^item> \<open>Supplier_created\<close>: "Supplier account created successfully!"
\<close>

datatype message =
    Payment_method_added
  | Error_adding_payment_method exn
  | Payment_created
  | Error_creating_payment exn
  | Restock_order_created
  | Error_creating_restock_order exn
  | Stock_updated_to_200
  | Error_updating_stock exn
  | Drug_not_found
  | Not_enough_stock int
  | Stock_updated
  | Customer_added
  | Email_already_exists
  | Error exn
  | Order_added
  | Pharmacist_created
  | Supplier_created

type_synonym 'a io = "world \<Rightarrow> (exn + 'a) \<times> world"

definition returns :: "'a \<Rightarrow> 'a io" where
  "returns a w = (Inr a, w)"

definition raises :: "exn \<Rightarrow> 'a io" where
  "raises e w = (Inl e, w)"

text \<open>Sequencing: an exception of the first statement skips the rest.\<close>

definition and_then :: "'a io \<Rightarrow> ('a \<Rightarrow> 'b io) \<Rightarrow> 'b io" where
  "and_then m f w = (case m w of (Inl e, w') \<Rightarrow> (Inl e, w') | (Inr a, w') \<Rightarrow> f a w')"

text \<open>\<^verbatim>\<open>try: ... except ...:\<close> with a handler for every exception.\<close>

definition try_except :: "'a io \<Rightarrow> (exn \<Rightarrow> 'a io) \<Rightarrow> 'a io" where
  "try_except m h w = (case m w of (Inl e, w') \<Rightarrow> h e w' | (Inr a, w') \<Rightarrow> (Inr a, w'))"

subsection \<open>The connection\<close>

definition next_call_fails :: "world \<Rightarrow> bool" where
  "next_call_fails w = (case faults w of [] \<Rightarrow> False | f # _ \<Rightarrow> f)"

definition advance :: "world \<Rightarrow> world" where
  "advance w = w\<lparr>faults := tl (faults w)\<rparr>"

definition store_call :: "unit io" where
  "store_call w =
     (if next_call_fails w then (Inl OperationalError, advance w) else (Inr (), advance w))"

text \<open>
  \<open>c.execute(sql, params)\<close>: a statement is a function from the database the connection
  sees to an exception or its result and the database after it.
\<close>

definition execute :: "(db \<Rightarrow> exn + 'a \<times> db) \<Rightarrow> 'a io" where
  "execute stmt =
     and_then store_call (\<lambda>_ w.
       case stmt (working w) of
         Inl e \<Rightarrow> (Inl e, w)
       | Inr (a, d) \<Rightarrow> (Inr a, w\<lparr>working := d\<rparr>))"

definition commit :: "unit io" where
  "commit = and_then store_call (\<lambda>_ w. (Inr (), w\<lparr>committed := working w\<rparr>))"

text \<open>A SELECT leaves the database as it is.\<close>

definition select :: "(db \<Rightarrow> 'a) \<Rightarrow> db \<Rightarrow> exn + 'a \<times> db" where
  "select q d = Inr (q d, d)"

definition fetchone :: "'a list \<Rightarrow> 'a option" where
  "fetchone rows = (case rows of [] \<Rightarrow> None | r # _ \<Rightarrow> Some r)"

text \<open>\<open>x[0]\<close> on the result of \<open>fetchone()\<close>: subscripting \<open>None\<close> raises TypeError.\<close>

definition subscript :: "'a option \<Rightarrow> 'a io" where
  "subscript r = (case r of None \<Rightarrow> raises TypeError | Some x \<Rightarrow> returns x)"

text \<open>
  \<open>c.lastrowid\<close> after an INSERT: sqlite gives a new row the rowid 1 in an empty table and
  the largest rowid plus one otherwise. An INSERT statement of the model returns it.
\<close>

definition next_rowid :: "int list \<Rightarrow> int" where
  "next_rowid ids = (case ids of [] \<Rightarrow> 1 | i # rest \<Rightarrow> fold max rest i + 1)"

subsection \<open>Cached accessors\<close>

text \<open>
  \<open>@st.cache_data\<close>: a filled slot is returned without running the body; otherwise the body
  runs and its result fills the slot. An exception of the body fills nothing.
\<close>

definition cache_data :: "(caches \<Rightarrow> 'a option) \<Rightarrow> ('a \<Rightarrow> caches \<Rightarrow> caches) \<Rightarrow> 'a io \<Rightarrow> 'a io" where
  "cache_data slot fill body w =
     (case slot (cache w) of
        Some v \<Rightarrow> (Inr v, w)
      | None \<Rightarrow> and_then body (\<lambda>v w'. (Inr v, w'\<lparr>cache := fill v (cache w')\<rparr>)) w)"

definition clear :: "(caches \<Rightarrow> caches) \<Rightarrow> unit io" where
  "clear empty_slot w = (Inr (), w\<lparr>cache := empty_slot (cache w)\<rparr>)"

subsection \<open>Seeding the payment methods (lines 21-34)\<close>

definition methods :: "(string \<times> string) list" where
  "methods =
     [(''COD'', ''Cash on Delivery''),
      (''UPI'', ''Unified Payments Interface''),
      (''Net Banking'', ''Internet Banking''),
      (''Studd'', ''Student Discount Payment (Placeholder)'')]"

definition SELECT_COUNT_PaymentMethods :: "db \<Rightarrow> exn + int \<times> db" where
  "SELECT_COUNT_PaymentMethods = select (\<lambda>d. int (length (PaymentMethods d)))"

definition insert_payment_method :: "string \<times> string \<Rightarrow> db \<Rightarrow> db" where
  "insert_payment_method m d =
     d\<lparr>PaymentMethods := PaymentMethods d @
          [\<lparr>PM_PaymentMethodID = next_rowid (map PM_PaymentMethodID (PaymentMethods d)),
            PM_MethodName = fst m, PM_Description = snd m\<rparr>]\<rparr>"

text \<open>\<open>c.executemany\<close>: one call on the connection, the rows inserted in order.\<close>

definition INSERT_INTO_PaymentMethods :: "(string \<times> string) list \<Rightarrow> db \<Rightarrow> exn + unit \<times> db" where
  "INSERT_INTO_PaymentMethods ms d = Inr ((), fold insert_payment_method ms d)"

definition initialize_payment_methods :: "unit io" where
  "initialize_payment_methods =
     and_then (execute SELECT_COUNT_PaymentMethods) (\<lambda>n.
       if n = 0 then
         and_then (execute (INSERT_INTO_PaymentMethods methods)) (\<lambda>_. commit)
       else returns ())"

subsection \<open>Low stock (lines 163-169)\<close>

definition SELECT_Drugs_low_stock :: "db \<Rightarrow> exn + drug list \<times> db" where
  "SELECT_Drugs_low_stock = select (\<lambda>d. filter (\<lambda>r. stock_no r \<le> 100) (Drugs d))"

text \<open>
  The accessor returns the rows and the column names; the column names are those of the
  record and are not repeated in the result.
\<close>

definition check_low_stock :: "drug list io" where
  "check_low_stock =
     cache_data cached_check_low_stock (\<lambda>v c. c\<lparr>cached_check_low_stock := Some v\<rparr>)
       (execute SELECT_Drugs_low_stock)"

subsection \<open>Rendering integers\<close>

text \<open>\<open>str(n)\<close> for a Python integer, used by the f-strings that end up in a column.\<close>

definition digit :: "nat \<Rightarrow> char" where
  "digit n = ''0123456789'' ! n"

function str_nat :: "nat \<Rightarrow> string" where
  "str_nat n = (if n < 10 then [digit n] else str_nat (n div 10) @ [digit (n mod 10)])"
  by pat_completeness auto
termination
  by (relation "measure id") auto

declare str_nat.simps [simp del]

definition str_int :: "int \<Rightarrow> string" where
  "str_int i = (if i < 0 then CHR ''-'' # str_nat (nat (- i)) else str_nat (nat i))"

subsection \<open>Payment methods of a pharmacy (lines 36-55)\<close>

definition SELECT_PaymentMethods :: "db \<Rightarrow> exn + (int \<times> string) list \<times> db" where
  "SELECT_PaymentMethods =
     select (\<lambda>d. map (\<lambda>m. (PM_PaymentMethodID m, PM_MethodName m)) (PaymentMethods d))"

text \<open>
  \<^verbatim>\<open>{method[1]: method[0] for method in methods}\<close>: a later row with the same name replaces
  an earlier one.
\<close>

definition dict_of_methods :: "(int \<times> string) list \<Rightarrow> (string \<rightharpoonup> int)" where
  "dict_of_methods ms = fold (\<lambda>method dict. dict(snd method \<mapsto> fst method)) ms Map.empty"

definition fetch_payment_methods :: "(string \<rightharpoonup> int) io" where
  "fetch_payment_methods =
     cache_data cached_fetch_payment_methods (\<lambda>v c. c\<lparr>cached_fetch_payment_methods := Some v\<rparr>)
       (and_then (execute SELECT_PaymentMethods) (\<lambda>ms. returns (dict_of_methods ms)))"

definition INSERT_INTO_PharmacyPayments :: "int \<Rightarrow> int \<Rightarrow> string \<Rightarrow> bool \<Rightarrow> db \<Rightarrow> exn + unit \<times> db" where
  "INSERT_INTO_PharmacyPayments pharmacy_id payment_method_id account_details is_default d =
     Inr ((), d\<lparr>PharmacyPayments := PharmacyPayments d @
       [\<lparr>PP_PharmacyID = pharmacy_id, PP_PaymentMethodID = payment_method_id,
         PP_AccountDetails = account_details, PP_IsDefault = is_default\<rparr>]\<rparr>)"

definition add_pharmacy_payment :: "int \<Rightarrow> int \<Rightarrow> string \<Rightarrow> bool \<Rightarrow> (bool \<times> message) io" where
  "add_pharmacy_payment pharmacy_id payment_method_id account_details is_default =
     try_except
       (and_then (execute (INSERT_INTO_PharmacyPayments pharmacy_id payment_method_id
                             account_details is_default)) (\<lambda>_.
        and_then commit (\<lambda>_.
        returns (True, Payment_method_added))))
       (\<lambda>e. returns (False, Error_adding_payment_method e))"

subsection \<open>Payment for a restock (lines 57-79)\<close>

definition INSERT_INTO_Payments ::
  "int \<Rightarrow> int \<Rightarrow> real \<Rightarrow> int \<Rightarrow> string \<Rightarrow> string option \<Rightarrow> string \<Rightarrow> db \<Rightarrow> exn + int \<times> db" where
  "INSERT_INTO_Payments pharmacy_id supplier_id amount payment_method_id status notes reference d =
     Inr (next_rowid (map P_PaymentID (Payments d)),
          d\<lparr>Payments := Payments d @
            [\<lparr>P_PaymentID = next_rowid (map P_PaymentID (Payments d)),
              P_PharmacyID = pharmacy_id, P_SupplierID = supplier_id, P_Amount = amount,
              P_PaymentMethodID = payment_method_id, P_Status = status, P_Notes = notes,
              P_TransactionReference = reference\<rparr>]\<rparr>)"

definition UPDATE_RestockOrders_SET_PaymentStatus :: "string \<Rightarrow> int \<Rightarrow> db \<Rightarrow> exn + unit \<times> db" where
  "UPDATE_RestockOrders_SET_PaymentStatus status restock_id d =
     Inr ((), d\<lparr>RestockOrders :=
       map (\<lambda>r. if RO_RestockID r = restock_id then r\<lparr>RO_PaymentStatus := Some status\<rparr> else r)
         (RestockOrders d)\<rparr>)"

definition INSERT_INTO_SupplierNotifications ::
  "int \<Rightarrow> string \<Rightarrow> notification_text \<Rightarrow> string \<Rightarrow> int \<Rightarrow> db \<Rightarrow> exn + unit \<times> db" where
  "INSERT_INTO_SupplierNotifications supplier_id title text entity_type entity_id d =
     Inr ((), d\<lparr>SupplierNotifications := SupplierNotifications d @
       [\<lparr>SN_NotificationID = next_rowid (map SN_NotificationID (SupplierNotifications d)),
         SN_SupplierID = supplier_id, SN_Title = title, SN_Message = text,
         SN_RelatedEntityType = entity_type, SN_RelatedEntityID = entity_id\<rparr>]\<rparr>)"

definition create_restock_payment ::
  "int \<Rightarrow> int \<Rightarrow> real \<Rightarrow> int \<Rightarrow> int \<Rightarrow> string \<Rightarrow> string option \<Rightarrow> (bool \<times> message \<times> int option) io" where
  "create_restock_payment pharmacy_id supplier_id amount payment_method_id restock_id status notes =
     try_except
       (and_then (execute (INSERT_INTO_Payments pharmacy_id supplier_id amount payment_method_id
                             status notes (''Restock-'' @ str_int restock_id))) (\<lambda>payment_id.
        and_then (execute (UPDATE_RestockOrders_SET_PaymentStatus status restock_id)) (\<lambda>_.
        and_then commit (\<lambda>_.
        and_then (execute (INSERT_INTO_SupplierNotifications supplier_id ''New Restock Payment''
                             (Payment_initiated amount restock_id) ''Payment'' payment_id)) (\<lambda>_.
        and_then commit (\<lambda>_.
        returns (True, Payment_created, Some payment_id)))))))
       (\<lambda>e. returns (False, Error_creating_payment e, None))"

subsection \<open>Restock order and ticket (lines 171-186)\<close>

definition INSERT_INTO_RestockOrders :: "int \<Rightarrow> int \<Rightarrow> int \<Rightarrow> db \<Rightarrow> exn + int \<times> db" where
  "INSERT_INTO_RestockOrders supplier_id drug_id quantity d =
     Inr (next_rowid (map RO_RestockID (RestockOrders d)),
          d\<lparr>RestockOrders := RestockOrders d @
            [\<lparr>RO_RestockID = next_rowid (map RO_RestockID (RestockOrders d)),
              RO_SupplierID = supplier_id, RO_DrugID = drug_id, RO_Quantity = quantity,
              RO_Status = ''Pending'', RO_PaymentStatus = None\<rparr>]\<rparr>)"

definition INSERT_INTO_Tickets :: "int \<Rightarrow> int \<Rightarrow> db \<Rightarrow> exn + unit \<times> db" where
  "INSERT_INTO_Tickets restock_id supplier_id d =
     Inr ((), d\<lparr>Tickets := Tickets d @
       [\<lparr>T_TicketID = next_rowid (map T_TicketID (Tickets d)), T_RestockID = restock_id,
         T_SupplierID = supplier_id, T_Status = ''Open''\<rparr>]\<rparr>)"

definition clear_fetch_all_drugs :: "unit io" where
  "clear_fetch_all_drugs = clear (\<lambda>c. c\<lparr>cached_fetch_all_drugs := None\<rparr>)"

definition clear_fetch_all_customers :: "unit io" where
  "clear_fetch_all_customers = clear (\<lambda>c. c\<lparr>cached_fetch_all_customers := None\<rparr>)"

definition clear_fetch_all_orders :: "unit io" where
  "clear_fetch_all_orders = clear (\<lambda>c. c\<lparr>cached_fetch_all_orders := None\<rparr>)"

definition clear_fetch_all_tickets :: "unit io" where
  "clear_fetch_all_tickets = clear (\<lambda>c. c\<lparr>cached_fetch_all_tickets := None\<rparr>)"

definition clear_fetch_all_restock_orders :: "unit io" where
  "clear_fetch_all_restock_orders = clear (\<lambda>c. c\<lparr>cached_fetch_all_restock_orders := None\<rparr>)"

definition clear_fetch_all_suppliers :: "unit io" where
  "clear_fetch_all_suppliers = clear (\<lambda>c. c\<lparr>cached_fetch_all_suppliers := None\<rparr>)"

definition clear_fetch_all_payments :: "unit io" where
  "clear_fetch_all_payments = clear (\<lambda>c. c\<lparr>cached_fetch_all_payments := None\<rparr>)"

definition clear_check_low_stock :: "unit io" where
  "clear_check_low_stock = clear (\<lambda>c. c\<lparr>cached_check_low_stock := None\<rparr>)"

text \<open>\<open>pharmacy_id\<close> is a parameter the function never uses.\<close>

definition create_restock_order ::
  "int \<Rightarrow> int \<Rightarrow> int \<Rightarrow> int \<Rightarrow> (bool \<times> message \<times> int option \<times> int option) io" where
  "create_restock_order supplier_id drug_id quantity pharmacy_id =
     try_except
       (and_then (execute (INSERT_INTO_RestockOrders supplier_id drug_id quantity)) (\<lambda>restock_id.
        and_then (execute (INSERT_INTO_Tickets restock_id supplier_id)) (\<lambda>_.
        and_then commit (\<lambda>_.
        and_then clear_fetch_all_tickets (\<lambda>_.
        and_then clear_fetch_all_restock_orders (\<lambda>_.
        and_then clear_check_low_stock (\<lambda>_.
        returns (True, Restock_order_created, Some restock_id, Some drug_id))))))))
       (\<lambda>e. returns (False, Error_creating_restock_order e, None, None))"

subsection \<open>Delivery confirmation (lines 188-202)\<close>

definition UPDATE_Drugs_SET_stock_no_200 :: "int \<Rightarrow> db \<Rightarrow> exn + unit \<times> db" where
  "UPDATE_Drugs_SET_stock_no_200 drug_id d =
     Inr ((), d\<lparr>Drugs :=
       map (\<lambda>r. if D_id r = drug_id then r\<lparr>stock_no := 200\<rparr> else r) (Drugs d)\<rparr>)"

definition UPDATE_RestockOrders_SET_Delivered :: "int \<Rightarrow> db \<Rightarrow> exn + unit \<times> db" where
  "UPDATE_RestockOrders_SET_Delivered drug_id d =
     Inr ((), d\<lparr>RestockOrders :=
       map (\<lambda>r. if RO_DrugID r = drug_id
                then r\<lparr>RO_Status := ''Delivered'', RO_PaymentStatus := Some ''Completed''\<rparr>
                else r)
         (RestockOrders d)\<rparr>)"

definition UPDATE_Tickets_SET_Closed :: "int \<Rightarrow> db \<Rightarrow> exn + unit \<times> db" where
  "UPDATE_Tickets_SET_Closed drug_id d =
     Inr ((), d\<lparr>Tickets :=
       map (\<lambda>t. if T_RestockID t \<in>
                     set (map RO_RestockID (filter (\<lambda>r. RO_DrugID r = drug_id) (RestockOrders d)))
                then t\<lparr>T_Status := ''Closed''\<rparr>
                else t)
         (Tickets d)\<rparr>)"

definition update_drug_stock :: "int \<Rightarrow> (bool \<times> message) io" where
  "update_drug_stock drug_id =
     try_except
       (and_then (execute (UPDATE_Drugs_SET_stock_no_200 drug_id)) (\<lambda>_.
        and_then (execute (UPDATE_RestockOrders_SET_Delivered drug_id)) (\<lambda>_.
        and_then (execute (UPDATE_Tickets_SET_Closed drug_id)) (\<lambda>_.
        and_then commit (\<lambda>_.
        and_then clear_fetch_all_drugs (\<lambda>_.
        and_then clear_fetch_all_tickets (\<lambda>_.
        and_then clear_fetch_all_restock_orders (\<lambda>_.
        and_then clear_check_low_stock (\<lambda>_.
        returns (True, Stock_updated_to_200))))))))))
       (\<lambda>e. returns (False, Error_updating_stock e))"

subsection \<open>Cached full-table reads (lines 204-267)\<close>

definition fetch_all_drugs :: "drug list io" where
  "fetch_all_drugs =
     cache_data cached_fetch_all_drugs (\<lambda>v c. c\<lparr>cached_fetch_all_drugs := Some v\<rparr>)
       (execute (select Drugs))"

definition fetch_all_customers :: "customer list io" where
  "fetch_all_customers =
     cache_data cached_fetch_all_customers (\<lambda>v c. c\<lparr>cached_fetch_all_customers := Some v\<rparr>)
       (execute (select Customers))"

definition fetch_all_orders :: "order_row list io" where
  "fetch_all_orders =
     cache_data cached_fetch_all_orders (\<lambda>v c. c\<lparr>cached_fetch_all_orders := Some v\<rparr>)
       (execute (select Orders))"

definition fetch_all_tickets :: "ticket list io" where
  "fetch_all_tickets =
     cache_data cached_fetch_all_tickets (\<lambda>v c. c\<lparr>cached_fetch_all_tickets := Some v\<rparr>)
       (execute (select Tickets))"

definition fetch_all_restock_orders :: "restock_order list io" where
  "fetch_all_restock_orders =
     cache_data cached_fetch_all_restock_orders
       (\<lambda>v c. c\<lparr>cached_fetch_all_restock_orders := Some v\<rparr>)
       (execute (select RestockOrders))"

definition fetch_all_suppliers :: "supplier list io" where
  "fetch_all_suppliers =
     cache_data cached_fetch_all_suppliers (\<lambda>v c. c\<lparr>cached_fetch_all_suppliers := Some v\<rparr>)
       (execute (select Suppliers))"

definition fetch_all_payments :: "payment list io" where
  "fetch_all_payments =
     cache_data cached_fetch_all_payments (\<lambda>v c. c\<lparr>cached_fetch_all_payments := Some v\<rparr>)
       (execute (select Payments))"

text \<open>
  \<open>ORDER BY CreatedAt DESC\<close>: \<open>CreatedAt\<close> is the time of insertion, so the newest row
  first is the reverse of the insertion order.
\<close>

definition fetch_supplier_notifications :: "int \<Rightarrow> supplier_notification list io" where
  "fetch_supplier_notifications supplier_id =
     cache_data (\<lambda>c. cached_fetch_supplier_notifications c supplier_id)
       (\<lambda>v c. c\<lparr>cached_fetch_supplier_notifications :=
                  (cached_fetch_supplier_notifications c)(supplier_id \<mapsto> v)\<rparr>)
       (execute (select (\<lambda>d.
          rev (filter (\<lambda>n. SN_SupplierID n = supplier_id) (SupplierNotifications d)))))"

subsection \<open>Stock update for an order (lines 269-285)\<close>

definition SELECT_D_id_stock_no_WHERE_D_Name :: "string \<Rightarrow> db \<Rightarrow> exn + (int \<times> int) list \<times> db" where
  "SELECT_D_id_stock_no_WHERE_D_Name drug_name =
     select (\<lambda>d. map (\<lambda>r. (D_id r, stock_no r)) (filter (\<lambda>r. D_Name r = drug_name) (Drugs d)))"

definition UPDATE_Drugs_SET_stock_no_minus :: "int \<Rightarrow> int \<Rightarrow> db \<Rightarrow> exn + unit \<times> db" where
  "UPDATE_Drugs_SET_stock_no_minus quantity drug_id d =
     Inr ((), d\<lparr>Drugs :=
       map (\<lambda>r. if D_id r = drug_id then r\<lparr>stock_no := stock_no r - quantity\<rparr> else r)
         (Drugs d)\<rparr>)"

definition update_stock_after_order :: "string \<Rightarrow> int \<Rightarrow> (bool \<times> message) io" where
  "update_stock_after_order drug_name quantity =
     try_except
       (and_then (execute (SELECT_D_id_stock_no_WHERE_D_Name drug_name)) (\<lambda>rows.
          case fetchone rows of
            None \<Rightarrow> returns (False, Drug_not_found)
          | Some (drug_id, current_stock) \<Rightarrow>
              if current_stock < quantity then returns (False, Not_enough_stock current_stock)
              else
                and_then (execute (UPDATE_Drugs_SET_stock_no_minus quantity drug_id)) (\<lambda>_.
                and_then commit (\<lambda>_.
                and_then clear_fetch_all_drugs (\<lambda>_.
                returns (True, Stock_updated))))))
       (\<lambda>e. returns (False, Error_updating_stock e))"

subsection \<open>Accounts (lines 287-299 and 368-403)\<close>

text \<open>
  Modelled from the spec: the schema of \<open>drug_data.db\<close> is not in the module. The spec's data
  model gives Customers, Suppliers and RetailPharmacies a unique email, "enforced by store
  constraint": an INSERT whose email is already in the table raises
  \<open>sqlite3.IntegrityError\<close> and inserts nothing.
\<close>

definition violates_unique :: "string \<Rightarrow> string list \<Rightarrow> bool" where
  "violates_unique email emails = (email \<in> set emails)"

definition INSERT_INTO_Customers ::
  "string \<Rightarrow> string \<Rightarrow> string \<Rightarrow> string \<Rightarrow> string \<Rightarrow> db \<Rightarrow> exn + unit \<times> db" where
  "INSERT_INTO_Customers name password email state number d =
     (if violates_unique email (map C_Email (Customers d)) then Inl IntegrityError
      else Inr ((), d\<lparr>Customers := Customers d @
        [\<lparr>C_id = next_rowid (map C_id (Customers d)), C_Name = name, C_Password = password,
          C_Email = email, C_State = state, C_Number = number\<rparr>]\<rparr>))"

definition add_new_customer ::
  "string \<Rightarrow> string \<Rightarrow> string \<Rightarrow> string \<Rightarrow> string \<Rightarrow> (bool \<times> message) io" where
  "add_new_customer name password email state number =
     try_except
       (and_then (execute (INSERT_INTO_Customers name password email state number)) (\<lambda>_.
        and_then commit (\<lambda>_.
        and_then clear_fetch_all_customers (\<lambda>_.
        returns (True, Customer_added)))))
       (\<lambda>e. case e of
              IntegrityError \<Rightarrow> returns (False, Email_already_exists)
            | _ \<Rightarrow> returns (False, Error e))"

definition INSERT_INTO_RetailPharmacies ::
  "string \<Rightarrow> string \<Rightarrow> string \<Rightarrow> string \<Rightarrow> string \<Rightarrow> string option \<Rightarrow> string option \<Rightarrow>
   db \<Rightarrow> exn + int \<times> db" where
  "INSERT_INTO_RetailPharmacies name email password address phone_number billing_address tax_id d =
     (if violates_unique email (map RP_PharmacyEmail (RetailPharmacies d)) then Inl IntegrityError
      else Inr (next_rowid (map RP_PharmacyID (RetailPharmacies d)),
        d\<lparr>RetailPharmacies := RetailPharmacies d @
          [\<lparr>RP_PharmacyID = next_rowid (map RP_PharmacyID (RetailPharmacies d)),
            RP_PharmacyName = name, RP_PharmacyEmail = email, RP_PharmacyPassword = password,
            RP_Address = address, RP_PhoneNumber = phone_number,
            RP_BillingAddress = billing_address, RP_TaxID = tax_id, RP_SupplierID = 1\<rparr>]\<rparr>))"

text \<open>\<open>payment_methods["COD"]\<close>: a missing key raises KeyError.\<close>

definition dict_subscript :: "(string \<rightharpoonup> 'a) \<Rightarrow> string \<Rightarrow> 'a io" where
  "dict_subscript dict k = (case dict k of None \<Rightarrow> raises (KeyError k) | Some v \<Rightarrow> returns v)"

definition add_new_retail_pharmacist ::
  "string \<Rightarrow> string \<Rightarrow> string \<Rightarrow> string \<Rightarrow> string \<Rightarrow> string option \<Rightarrow> string option \<Rightarrow>
   (bool \<times> message \<times> int option) io" where
  "add_new_retail_pharmacist name email password address phone_number billing_address tax_id =
     try_except
       (and_then (execute (INSERT_INTO_RetailPharmacies name email password address phone_number
                             billing_address tax_id)) (\<lambda>pharmacy_id.
        and_then commit (\<lambda>_.
        and_then fetch_payment_methods (\<lambda>payment_methods.
        and_then (dict_subscript payment_methods ''COD'') (\<lambda>cod.
        and_then (add_pharmacy_payment pharmacy_id cod ''Cash on delivery'' True) (\<lambda>_.
        returns (True, Pharmacist_created, Some pharmacy_id)))))))
       (\<lambda>e. case e of
              IntegrityError \<Rightarrow> returns (False, Email_already_exists, None)
            | _ \<Rightarrow> returns (False, Error e, None))"

definition INSERT_INTO_Suppliers ::
  "string \<Rightarrow> string \<Rightarrow> string \<Rightarrow> string \<Rightarrow> string \<Rightarrow> db \<Rightarrow> exn + int \<times> db" where
  "INSERT_INTO_Suppliers name email contact_number address password d =
     (if violates_unique email (map S_ContactEmail (Suppliers d)) then Inl IntegrityError
      else Inr (next_rowid (map S_SupplierID (Suppliers d)),
        d\<lparr>Suppliers := Suppliers d @
          [\<lparr>S_SupplierID = next_rowid (map S_SupplierID (Suppliers d)), S_SupplierName = name,
            S_ContactEmail = email, S_ContactNumber = contact_number, S_Address = address,
            S_SupplierPassword = password\<rparr>]\<rparr>))"

definition add_new_supplier ::
  "string \<Rightarrow> string \<Rightarrow> string \<Rightarrow> string \<Rightarrow> string \<Rightarrow> (bool \<times> message \<times> int option) io" where
  "add_new_supplier name email contact_number address password =
     try_except
       (and_then (execute (INSERT_INTO_Suppliers name email contact_number address password))
          (\<lambda>supplier_id.
        and_then commit (\<lambda>_.
        and_then clear_fetch_all_suppliers (\<lambda>_.
        returns (True, Supplier_created, Some supplier_id)))))
       (\<lambda>e. case e of
              IntegrityError \<Rightarrow> returns (False, Email_already_exists, None)
            | _ \<Rightarrow> returns (False, Error e, None))"

subsection \<open>Order with payment (lines 301-331)\<close>

definition INSERT_INTO_Orders :: "string \<Rightarrow> string \<Rightarrow> int \<Rightarrow> string \<Rightarrow> db \<Rightarrow> exn + int \<times> db" where
  "INSERT_INTO_Orders name items quantity current_date d =
     Inr (next_rowid (map O_id (Orders d)),
          d\<lparr>Orders := Orders d @
            [\<lparr>O_id = next_rowid (map O_id (Orders d)), O_Name = name, O_Items = items,
              O_Qty = quantity, O_Date = current_date\<rparr>]\<rparr>)"

definition SELECT_D_Price_WHERE_D_Name :: "string \<Rightarrow> db \<Rightarrow> exn + real list \<times> db" where
  "SELECT_D_Price_WHERE_D_Name drug_name =
     select (\<lambda>d. map D_Price (filter (\<lambda>r. D_Name r = drug_name) (Drugs d)))"

text \<open>
  Lines 314-317, "Get drug price for payment calculation": the query, \<open>fetchone()[0]\<close> and
  \<open>amount = drug_price * quantity\<close>.
\<close>

definition order_amount :: "string \<Rightarrow> int \<Rightarrow> real io" where
  "order_amount items quantity =
     and_then (execute (SELECT_D_Price_WHERE_D_Name items)) (\<lambda>rows.
     and_then (subscript (fetchone rows)) (\<lambda>drug_price.
     returns (drug_price * of_int quantity)))"

text \<open>
  Line 321 calls \<open>create_payment\<close>. The module binds this name nowhere: it has no such
  \<open>def\<close>, no assignment to it and no import that could bring it in (the imports are
  \<open>os\<close>, \<open>sqlite3\<close>, \<open>pandas\<close>, \<open>streamlit\<close>, \<open>reportlab\<close>, \<open>datetime\<close> and
  \<open>plotly.express\<close>, none of them with a star). Looking the name up raises NameError, which
  the \<open>except Exception\<close> of \<open>add_new_order\<close> catches.
\<close>

definition create_payment ::
  "int \<Rightarrow> int \<Rightarrow> real \<Rightarrow> int option \<Rightarrow> string \<Rightarrow> string \<Rightarrow> (bool \<times> message \<times> int option) io" where
  "create_payment pharmacy_id supplier_id amount payment_method_id status notes =
     raises (NameError ''create_payment'')"

text \<open>
  \<open>current_date\<close> is \<open>datetime.now()\<close> as formatted at line 309, a value of the environment
  and so a parameter here.
\<close>

definition add_new_order ::
  "int \<Rightarrow> string \<Rightarrow> string \<Rightarrow> int \<Rightarrow> string \<Rightarrow> string \<Rightarrow> (bool \<times> message) io" where
  "add_new_order pharmacy_id name items quantity payment_method current_date =
     try_except
       (and_then (update_stock_after_order items quantity) (\<lambda>(stock_success, stock_message).
          if \<not> stock_success then returns (False, stock_message)
          else
            and_then (execute (INSERT_INTO_Orders name items quantity current_date)) (\<lambda>order_id.
            and_then (order_amount items quantity) (\<lambda>amount.
            and_then fetch_payment_methods (\<lambda>payment_methods.
            and_then (create_payment pharmacy_id 1 amount (payment_methods payment_method)
                        ''Pending'' (''Order ID: '' @ str_int order_id))
              (\<lambda>(success, message, payment_id).
                if success then
                  and_then commit (\<lambda>_.
                  and_then clear_fetch_all_orders (\<lambda>_.
                  and_then clear_fetch_all_payments (\<lambda>_.
                  returns (True, Order_added))))
                else returns (False, message)))))))
       (\<lambda>e. returns (False, Error e))"

subsection \<open>The restock ticket form (lines 532-577)\<close>

definition SELECT_D_id_WHERE_D_Name :: "string \<Rightarrow> db \<Rightarrow> exn + int list \<times> db" where
  "SELECT_D_id_WHERE_D_Name drug_name =
     select (\<lambda>d. map D_id (filter (\<lambda>r. D_Name r = drug_name) (Drugs d)))"

definition get_drug_id_from_name :: "string \<Rightarrow> int option io" where
  "get_drug_id_from_name drug_name =
     and_then (execute (SELECT_D_id_WHERE_D_Name drug_name)) (\<lambda>rows. returns (fetchone rows))"






subsection \<open>Example stores\<close>

text \<open>
  Concrete stores on which the theorems below are instantiated: an empty database, and a
  small pharmacy with three drugs (stock 150, 100 and 101), one account of each kind, two
  pending restock orders with their open tickets, and the four seeded payment methods.
\<close>

definition empty_db :: db where
  "empty_db =
     \<lparr>Drugs = [], Customers = [], Orders = [], Suppliers = [], RetailPharmacies = [],
      RestockOrders = [], Tickets = [], Payments = [], PaymentMethods = [],
      PharmacyPayments = [], SupplierNotifications = []\<rparr>"

definition empty_caches :: caches where
  "empty_caches =
     \<lparr>cached_fetch_payment_methods = None, cached_check_low_stock = None,
      cached_fetch_all_drugs = None, cached_fetch_all_customers = None,
      cached_fetch_all_orders = None, cached_fetch_all_tickets = None,
      cached_fetch_all_restock_orders = None, cached_fetch_all_suppliers = None,
      cached_fetch_all_payments = None, cached_fetch_supplier_notifications = Map.empty\<rparr>"

definition pharmacy_db :: db where
  "pharmacy_db =
     \<lparr>Drugs =
        [\<lparr>D_id = 1, D_Name = ''Paracetamol'', D_Price = 10, D_IsDiscontinued = False,
          stock_no = 150\<rparr>,
         \<lparr>D_id = 2, D_Name = ''Ibuprofen'', D_Price = 4, D_IsDiscontinued = False,
          stock_no = 100\<rparr>,
         \<lparr>D_id = 3, D_Name = ''Aspirin'', D_Price = 3, D_IsDiscontinued = False,
          stock_no = 101\<rparr>],
      Customers =
        [\<lparr>C_id = 1, C_Name = ''Asha'', C_Password = ''pw'', C_Email = ''asha@example.org'',
          C_State = ''KA'', C_Number = ''100''\<rparr>],
      Orders = [],
      Suppliers =
        [\<lparr>S_SupplierID = 1, S_SupplierName = ''Medico'', S_ContactEmail = ''sales@medico.example'',
          S_ContactNumber = ''200'', S_Address = ''Pune'', S_SupplierPassword = ''pw''\<rparr>],
      RetailPharmacies =
        [\<lparr>RP_PharmacyID = 1, RP_PharmacyName = ''Corner'', RP_PharmacyEmail = ''corner@example.org'',
          RP_PharmacyPassword = ''pw'', RP_Address = ''Goa'', RP_PhoneNumber = ''300'',
          RP_BillingAddress = None, RP_TaxID = None, RP_SupplierID = 1\<rparr>],
      RestockOrders =
        [\<lparr>RO_RestockID = 1, RO_SupplierID = 1, RO_DrugID = 2, RO_Quantity = 50,
          RO_Status = ''Pending'', RO_PaymentStatus = Some ''Pending''\<rparr>,
         \<lparr>RO_RestockID = 2, RO_SupplierID = 1, RO_DrugID = 3, RO_Quantity = 20,
          RO_Status = ''Pending'', RO_PaymentStatus = Some ''Pending''\<rparr>],
      Tickets =
        [\<lparr>T_TicketID = 1, T_RestockID = 1, T_SupplierID = 1, T_Status = ''Open''\<rparr>,
         \<lparr>T_TicketID = 2, T_RestockID = 2, T_SupplierID = 1, T_Status = ''Open''\<rparr>],
      Payments = [],
      PaymentMethods =
        [\<lparr>PM_PaymentMethodID = 1, PM_MethodName = ''COD'', PM_Description = ''Cash on Delivery''\<rparr>,
         \<lparr>PM_PaymentMethodID = 2, PM_MethodName = ''UPI'',
          PM_Description = ''Unified Payments Interface''\<rparr>,
         \<lparr>PM_PaymentMethodID = 3, PM_MethodName = ''Net Banking'',
          PM_Description = ''Internet Banking''\<rparr>,
         \<lparr>PM_PaymentMethodID = 4, PM_MethodName = ''Studd'',
          PM_Description = ''Student Discount Payment (Placeholder)''\<rparr>],
      PharmacyPayments = [],
      SupplierNotifications = []\<rparr>"

text \<open>A world over a database with nothing pending, nothing cached and a given script.\<close>

definition world_of :: "db \<Rightarrow> bool list \<Rightarrow> world" where
  "world_of d fs = \<lparr>committed = d, working = d, faults = fs, cache = empty_caches\<rparr>"

text \<open>
  The small pharmacy after its payments page, the notifications of supplier 1 and the restock
  orders have been shown once: the three accessors have run and hold their snapshots.
\<close>

definition after_reads :: world where
  "after_reads =
     snd (fetch_all_restock_orders
       (snd (fetch_supplier_notifications 1
         (snd (fetch_all_payments (world_of pharmacy_db []))))))"

section \<open>Properties\<close>

subsection \<open>Running the connection\<close>

text \<open>
  What a call on the connection does, as one equation per primitive; the script of faults
  is only looked at through \<open>next_call_fails\<close> and \<open>advance\<close>.
\<close>

lemma advance_simps [simp]:
  "working (advance w) = working w"
  "committed (advance w) = committed w"
  "cache (advance w) = cache w"
  "faults (advance w) = tl (faults w)"
  by (simp_all add: advance_def)

lemma next_call_fails_upd [simp]:
  "next_call_fails (w\<lparr>working := d\<rparr>) = next_call_fails w"
  "next_call_fails (w\<lparr>committed := d\<rparr>) = next_call_fails w"
  "next_call_fails (w\<lparr>cache := c\<rparr>) = next_call_fails w"
  by (simp_all add: next_call_fails_def)

lemma advance_upd [simp]:
  "advance (w\<lparr>working := d\<rparr>) = (advance w)\<lparr>working := d\<rparr>"
  "advance (w\<lparr>committed := d\<rparr>) = (advance w)\<lparr>committed := d\<rparr>"
  "advance (w\<lparr>cache := c\<rparr>) = (advance w)\<lparr>cache := c\<rparr>"
  by (simp_all add: advance_def)

lemma no_faults [simp]:
  "faults w = [] \<Longrightarrow> next_call_fails w = False"
  "faults w = [] \<Longrightarrow> advance w = w"
  by (simp_all add: next_call_fails_def advance_def)

lemma world_of_simps [simp]:
  "committed (world_of d fs) = d" "working (world_of d fs) = d"
  "faults (world_of d fs) = fs" "cache (world_of d fs) = empty_caches"
  by (simp_all add: world_of_def)

lemma execute_run:
  "execute stmt w =
     (if next_call_fails w then (Inl OperationalError, advance w)
      else (case stmt (working w) of
              Inl e \<Rightarrow> (Inl e, advance w)
            | Inr (a, d) \<Rightarrow> (Inr a, (advance w)\<lparr>working := d\<rparr>)))"
  by (simp add: execute_def and_then_def store_call_def split: sum.splits prod.splits)

lemma commit_run:
  "commit w =
     (if next_call_fails w then (Inl OperationalError, advance w)
      else (Inr (), (advance w)\<lparr>committed := working w\<rparr>))"
  by (simp add: commit_def and_then_def store_call_def)

lemmas io_defs = and_then_def try_except_def returns_def raises_def clear_def
  execute_run commit_run


subsection \<open>Seeding\<close>

lemma seeded_rows:
  "PaymentMethods d = [] \<Longrightarrow>
   fold insert_payment_method methods d =
     d\<lparr>PaymentMethods :=
        [\<lparr>PM_PaymentMethodID = 1, PM_MethodName = ''COD'', PM_Description = ''Cash on Delivery''\<rparr>,
         \<lparr>PM_PaymentMethodID = 2, PM_MethodName = ''UPI'',
          PM_Description = ''Unified Payments Interface''\<rparr>,
         \<lparr>PM_PaymentMethodID = 3, PM_MethodName = ''Net Banking'',
          PM_Description = ''Internet Banking''\<rparr>,
         \<lparr>PM_PaymentMethodID = 4, PM_MethodName = ''Studd'',
          PM_Description = ''Student Discount Payment (Placeholder)''\<rparr>]\<rparr>"
  by (simp add: methods_def insert_payment_method_def next_rowid_def)

lemma initialize_nonempty:
  "faults w = [] \<Longrightarrow> PaymentMethods (working w) \<noteq> [] \<Longrightarrow>
   initialize_payment_methods w = (Inr (), w)"
  by (simp add: initialize_payment_methods_def SELECT_COUNT_PaymentMethods_def select_def io_defs)

lemma initialize_empty:
  "faults w = [] \<Longrightarrow> PaymentMethods (working w) = [] \<Longrightarrow>
   initialize_payment_methods w =
     (Inr (), w\<lparr>working := fold insert_payment_method methods (working w),
               committed := fold insert_payment_method methods (working w)\<rparr>)"
  by (simp add: initialize_payment_methods_def SELECT_COUNT_PaymentMethods_def
      INSERT_INTO_PaymentMethods_def select_def io_defs)


text \<open>
  C8. When the store does not fail: seeding an empty PaymentMethods table returns normally
  and leaves exactly four rows, named COD, UPI, Net Banking and Studd, committed; seeding a
  table that has rows changes nothing; and running the seeding again on the state it
  produced changes nothing (idempotence).
\<close>

theorem seeding_is_idempotent:
  assumes "faults w = []"
  shows "(PaymentMethods (working w) = [] \<longrightarrow>
            (\<exists>w'. initialize_payment_methods w = (Inr (), w') \<and>
                  length (PaymentMethods (working w')) = 4 \<and>
                  map PM_MethodName (PaymentMethods (working w')) =
                    [''COD'', ''UPI'', ''Net Banking'', ''Studd''] \<and>
                  committed w' = working w')) \<and>
         (PaymentMethods (working w) \<noteq> [] \<longrightarrow> initialize_payment_methods w = (Inr (), w)) \<and>
         initialize_payment_methods (snd (initialize_payment_methods w)) =
           (Inr (), snd (initialize_payment_methods w))"
proof (cases "PaymentMethods (working w) = []")
  case True
  let ?w' = "w\<lparr>working := fold insert_payment_method methods (working w),
               committed := fold insert_payment_method methods (working w)\<rparr>"
  have run: "initialize_payment_methods w = (Inr (), ?w')"
    using assms True by (rule initialize_empty)
  have rows: "PaymentMethods (working ?w') \<noteq> []"
    using True by (simp add: seeded_rows)
  have "faults ?w' = []" using assms by simp
  then have again: "initialize_payment_methods ?w' = (Inr (), ?w')"
    using rows by (rule initialize_nonempty)
  show ?thesis using True run again by (simp add: seeded_rows)
next
  case False
  then show ?thesis using assms by (simp add: initialize_nonempty)
qed

theorem seeding_is_idempotent_witness:
  "faults (world_of empty_db []) = [] \<and>
   PaymentMethods (working (world_of empty_db [])) = [] \<and>
   (\<exists>w'. initialize_payment_methods (world_of empty_db []) = (Inr (), w') \<and>
         length (PaymentMethods (working w')) = 4) \<and>
   PaymentMethods (working (world_of pharmacy_db [])) \<noteq> [] \<and>
   initialize_payment_methods (world_of pharmacy_db []) = (Inr (), world_of pharmacy_db [])"
proof -
  have f: "faults (world_of empty_db []) = []" "faults (world_of pharmacy_db []) = []"
    by (simp_all add: world_of_def)
  have e: "PaymentMethods (working (world_of empty_db [])) = []"
    by (simp add: world_of_def empty_db_def)
  have n: "PaymentMethods (working (world_of pharmacy_db [])) \<noteq> []"
    by (simp add: world_of_def pharmacy_db_def)
  show ?thesis
    using seeding_is_idempotent [OF f(1)] seeding_is_idempotent [OF f(2)] f e n by blast
qed


subsection \<open>Low stock\<close>

text \<open>
  C5. When the accessor runs its query (nothing cached, the store answers), the low-stock
  result is exactly the drugs whose stock count is at most 100, in table order: a drug with
  stock 100 is in it and a drug with stock 101 is not.
\<close>

theorem low_stock_threshold:
  assumes "cached_check_low_stock (cache w) = None" and "\<not> next_call_fails w"
  shows "\<exists>rows. fst (check_low_stock w) = Inr rows \<and>
           rows = filter (\<lambda>r. stock_no r \<le> 100) (Drugs (working w)) \<and>
           (\<forall>r \<in> set (Drugs (working w)).
              (r \<in> set rows \<longleftrightarrow> stock_no r \<le> 100) \<and>
              (stock_no r = 100 \<longrightarrow> r \<in> set rows) \<and>
              (stock_no r = 101 \<longrightarrow> r \<notin> set rows))"
  using assms
  by (simp add: check_low_stock_def cache_data_def SELECT_Drugs_low_stock_def select_def io_defs)

theorem low_stock_threshold_witness:
  "cached_check_low_stock (cache (world_of pharmacy_db [])) = None \<and>
   \<not> next_call_fails (world_of pharmacy_db []) \<and>
   (\<exists>rows. fst (check_low_stock (world_of pharmacy_db [])) = Inr rows \<and>
      map D_Name rows = [''Ibuprofen''])"
proof -
  have c: "cached_check_low_stock (cache (world_of pharmacy_db [])) = None"
    by (simp add: world_of_def empty_caches_def)
  have f: "\<not> next_call_fails (world_of pharmacy_db [])"
    by (simp add: world_of_def next_call_fails_def)
  have d: "map D_Name (filter (\<lambda>r. stock_no r \<le> 100) (Drugs (working (world_of pharmacy_db [])))) =
             [''Ibuprofen'']"
    by (simp add: world_of_def pharmacy_db_def)
  show ?thesis
    using low_stock_threshold [OF c f] c f d by auto
qed

subsection \<open>Delivery confirmation\<close>

text \<open>
  Membership in a table that an UPDATE has mapped is unfolded with \<open>set_map\<close> and
  \<open>ball_simps\<close> only, and the row then split on its WHERE clause.
\<close>

lemma delivered_restock_ids:
  "map RO_RestockID (filter (\<lambda>r. RO_DrugID r = drug_id)
     (map (\<lambda>r. if RO_DrugID r = drug_id then r\<lparr>RO_Status := s, RO_PaymentStatus := p\<rparr> else r) xs)) =
   map RO_RestockID (filter (\<lambda>r. RO_DrugID r = drug_id) xs)"
  by (induction xs) auto

lemma restock_id_member:
  "(i \<in> set (map RO_RestockID (filter (\<lambda>r. RO_DrugID r = drug_id) xs))) =
   (\<exists>r \<in> set xs. RO_DrugID r = drug_id \<and> RO_RestockID r = i)"
  by (induction xs) auto

lemma update_drug_stock_success:
  assumes "update_drug_stock drug_id w = (Inr (True, m), w')"
  shows "working w' = (working w)\<lparr>
            Drugs := map (\<lambda>r. if D_id r = drug_id then r\<lparr>stock_no := 200\<rparr> else r) (Drugs (working w)),
            RestockOrders := map (\<lambda>r. if RO_DrugID r = drug_id
                then r\<lparr>RO_Status := ''Delivered'', RO_PaymentStatus := Some ''Completed''\<rparr>
                else r) (RestockOrders (working w)),
            Tickets := map (\<lambda>t. if T_RestockID t \<in>
                     set (map RO_RestockID (filter (\<lambda>r. RO_DrugID r = drug_id) (RestockOrders (working w))))
                then t\<lparr>T_Status := ''Closed''\<rparr>
                else t) (Tickets (working w))\<rparr>"
    and "committed w' = working w'"
    and "cache w' = (cache w)\<lparr>cached_fetch_all_drugs := None, cached_fetch_all_tickets := None,
              cached_fetch_all_restock_orders := None, cached_check_low_stock := None\<rparr>"
  using assms
  unfolding update_drug_stock_def clear_fetch_all_drugs_def clear_fetch_all_tickets_def
    clear_fetch_all_restock_orders_def clear_check_low_stock_def
    UPDATE_Drugs_SET_stock_no_200_def UPDATE_RestockOrders_SET_Delivered_def UPDATE_Tickets_SET_Closed_def
  by (auto simp add: io_defs delivered_restock_ids simp del: set_map set_filter split: if_splits)

lemma update_drug_stock_tables:
  assumes "update_drug_stock drug_id w = (Inr (True, m), w')"
  shows "Drugs (working w') =
           map (\<lambda>r. if D_id r = drug_id then r\<lparr>stock_no := 200\<rparr> else r) (Drugs (working w))"
    and "RestockOrders (working w') =
           map (\<lambda>r. if RO_DrugID r = drug_id
                    then r\<lparr>RO_Status := ''Delivered'', RO_PaymentStatus := Some ''Completed''\<rparr>
                    else r) (RestockOrders (working w))"
    and "Tickets (working w') =
           map (\<lambda>t. if \<exists>r \<in> set (RestockOrders (working w)).
                          RO_DrugID r = drug_id \<and> RO_RestockID r = T_RestockID t
                    then t\<lparr>T_Status := ''Closed''\<rparr> else t) (Tickets (working w))"
    and "(working w')\<lparr>Drugs := Drugs (working w), RestockOrders := RestockOrders (working w),
                      Tickets := Tickets (working w)\<rparr> = working w"
  unfolding update_drug_stock_success(1) [OF assms] restock_id_member
  by simp_all

lemma update_drug_stock_runs:
  "faults w = [] \<Longrightarrow> \<exists>w'. update_drug_stock drug_id w = (Inr (True, Stock_updated_to_200), w')"
  unfolding update_drug_stock_def clear_fetch_all_drugs_def clear_fetch_all_tickets_def
    clear_fetch_all_restock_orders_def clear_check_low_stock_def
    UPDATE_Drugs_SET_stock_no_200_def UPDATE_RestockOrders_SET_Delivered_def UPDATE_Tickets_SET_Closed_def
  by (simp add: io_defs del: set_map set_filter)





lemma stocked_rows:
  "\<forall>d \<in> set (map (\<lambda>r. if D_id r = drug_id then r\<lparr>stock_no := 200\<rparr> else r) ds).
     D_id d = drug_id \<longrightarrow> stock_no d = 200"
  by (simp only: set_map ball_simps) (simp split: if_splits)

lemma delivered_rows:
  "\<forall>r \<in> set (map (\<lambda>r. if RO_DrugID r = drug_id
                        then r\<lparr>RO_Status := s, RO_PaymentStatus := p\<rparr> else r) xs).
     RO_DrugID r = drug_id \<longrightarrow> RO_Status r = s \<and> RO_PaymentStatus r = p"
  by (simp only: set_map ball_simps) (simp split: if_splits)


lemma closed_rows:
  "\<forall>t \<in> set (map (\<lambda>t. if P (T_RestockID t) then t\<lparr>T_Status := ''Closed''\<rparr> else t) ts).
     P (T_RestockID t) \<longrightarrow> T_Status t = ''Closed''"
  by (simp only: set_map ball_simps) (simp split: if_splits)

text \<open>
  C2. A delivery confirmation is a call of \<open>update_drug_stock\<close> that reports success; with a
  store that does not fail, every call does. After it, every drug with the confirmed id has
  stock 200, every restock order for that drug is Delivered with payment status Completed,
  every ticket that references such a restock order is Closed, and all of it is committed.
\<close>

theorem restock_confirmation:
  "(faults w = [] \<longrightarrow>
      (\<exists>w'. update_drug_stock drug_id w = (Inr (True, Stock_updated_to_200), w'))) \<and>
   (\<forall>m w'. update_drug_stock drug_id w = (Inr (True, m), w') \<longrightarrow>
      (\<forall>d \<in> set (Drugs (working w')). D_id d = drug_id \<longrightarrow> stock_no d = 200) \<and>
      (\<forall>r \<in> set (RestockOrders (working w')). RO_DrugID r = drug_id \<longrightarrow>
         RO_Status r = ''Delivered'' \<and> RO_PaymentStatus r = Some ''Completed'' \<and>
         (\<forall>t \<in> set (Tickets (working w')). T_RestockID t = RO_RestockID r \<longrightarrow>
            T_Status t = ''Closed'')) \<and>
      committed w' = working w')"
proof (intro conjI allI impI)
  assume "faults w = []"
  then show "\<exists>w'. update_drug_stock drug_id w = (Inr (True, Stock_updated_to_200), w')"
    by (rule update_drug_stock_runs)
next
  fix m w' assume run: "update_drug_stock drug_id w = (Inr (True, m), w')"
  note D = update_drug_stock_tables(1) [OF run]
    and R = update_drug_stock_tables(2) [OF run]
    and T = update_drug_stock_tables(3) [OF run]
  show "\<forall>d \<in> set (Drugs (working w')). D_id d = drug_id \<longrightarrow> stock_no d = 200"
    unfolding D by (rule stocked_rows)
  show "\<forall>r \<in> set (RestockOrders (working w')). RO_DrugID r = drug_id \<longrightarrow>
         RO_Status r = ''Delivered'' \<and> RO_PaymentStatus r = Some ''Completed'' \<and>
         (\<forall>t \<in> set (Tickets (working w')). T_RestockID t = RO_RestockID r \<longrightarrow>
            T_Status t = ''Closed'')"
  proof (intro ballI impI)
    fix r assume r: "r \<in> set (RestockOrders (working w'))" and dr: "RO_DrugID r = drug_id"
    from r have r': "r \<in> set (map (\<lambda>r. if RO_DrugID r = drug_id
                    then r\<lparr>RO_Status := ''Delivered'', RO_PaymentStatus := Some ''Completed''\<rparr>
                    else r) (RestockOrders (working w)))"
      unfolding R .
    note st = delivered_rows [rule_format, OF r' dr]
    have "RO_RestockID r \<in> set (map RO_RestockID
            (filter (\<lambda>r. RO_DrugID r = drug_id) (RestockOrders (working w'))))"
      unfolding restock_id_member by (rule bexI [OF _ r]) (simp add: dr)
    then have "RO_RestockID r \<in> set (map RO_RestockID
            (filter (\<lambda>r. RO_DrugID r = drug_id) (RestockOrders (working w))))"
      unfolding R delivered_restock_ids .
    then have ex: "\<exists>r0 \<in> set (RestockOrders (working w)).
                     RO_DrugID r0 = drug_id \<and> RO_RestockID r0 = RO_RestockID r"
      unfolding restock_id_member .
    have tk: "\<forall>t \<in> set (Tickets (working w')).
                (\<exists>r0 \<in> set (RestockOrders (working w)).
                    RO_DrugID r0 = drug_id \<and> RO_RestockID r0 = T_RestockID t) \<longrightarrow>
                T_Status t = ''Closed''"
      unfolding T
      by (rule closed_rows [where P = "\<lambda>i. \<exists>r0 \<in> set (RestockOrders (working w)).
                    RO_DrugID r0 = drug_id \<and> RO_RestockID r0 = i"])
    have "\<forall>t \<in> set (Tickets (working w')). T_RestockID t = RO_RestockID r \<longrightarrow>
            T_Status t = ''Closed''"
    proof (intro ballI impI)
      fix t assume t: "t \<in> set (Tickets (working w'))" and tr: "T_RestockID t = RO_RestockID r"
      from ex have "\<exists>r0 \<in> set (RestockOrders (working w)).
                     RO_DrugID r0 = drug_id \<and> RO_RestockID r0 = T_RestockID t"
        unfolding tr [symmetric] .
      then show "T_Status t = ''Closed''" by (rule tk [rule_format, OF t])
    qed
    with st show "RO_Status r = ''Delivered'' \<and> RO_PaymentStatus r = Some ''Completed'' \<and>
         (\<forall>t \<in> set (Tickets (working w')). T_RestockID t = RO_RestockID r \<longrightarrow>
            T_Status t = ''Closed'')"
      by (intro conjI) (rule conjunct1, assumption, rule conjunct2, assumption, assumption)
  qed
  show "committed w' = working w'"
    by (rule update_drug_stock_success(2) [OF run])
qed

theorem restock_confirmation_witness:
  "faults (world_of pharmacy_db []) = [] \<and>
   (\<exists>w'. update_drug_stock 2 (world_of pharmacy_db []) = (Inr (True, Stock_updated_to_200), w') \<and>
      map (\<lambda>d. (D_id d, stock_no d)) (Drugs (working w')) = [(1, 150), (2, 200), (3, 101)] \<and>
      map (\<lambda>r. (RO_DrugID r, RO_Status r)) (RestockOrders (working w')) =
        [(2, ''Delivered''), (3, ''Pending'')] \<and>
      map (\<lambda>t. (T_RestockID t, T_Status t)) (Tickets (working w')) =
        [(1, ''Closed''), (2, ''Open'')] \<and>
      (\<forall>d \<in> set (Drugs (working w')). D_id d = 2 \<longrightarrow> stock_no d = 200) \<and>
      (\<forall>r \<in> set (RestockOrders (working w')). RO_DrugID r = 2 \<longrightarrow>
         RO_Status r = ''Delivered'' \<and> RO_PaymentStatus r = Some ''Completed'' \<and>
         (\<forall>t \<in> set (Tickets (working w')). T_RestockID t = RO_RestockID r \<longrightarrow>
            T_Status t = ''Closed'')) \<and>
      committed w' = working w')"
proof -
  have f: "faults (world_of pharmacy_db []) = []" by simp
  note inst = restock_confirmation [of "world_of pharmacy_db []" 2]
  from inst f obtain w' where
    run: "update_drug_stock 2 (world_of pharmacy_db []) = (Inr (True, Stock_updated_to_200), w')"
    by (elim conjE impE exE)
  note post = inst [THEN conjunct2, rule_format, OF run]
  have d: "map (\<lambda>d. (D_id d, stock_no d)) (Drugs (working w')) = [(1, 150), (2, 200), (3, 101)]"
    unfolding update_drug_stock_tables(1) [OF run] by (simp add: pharmacy_db_def)
  have r: "map (\<lambda>r. (RO_DrugID r, RO_Status r)) (RestockOrders (working w')) =
        [(2, ''Delivered''), (3, ''Pending'')]"
    unfolding update_drug_stock_tables(2) [OF run] by (simp add: pharmacy_db_def)
  have t: "map (\<lambda>t. (T_RestockID t, T_Status t)) (Tickets (working w')) =
        [(1, ''Closed''), (2, ''Open'')]"
    unfolding update_drug_stock_tables(3) [OF run] by (simp add: pharmacy_db_def)
  show ?thesis
    by (intro conjI exI [of _ w'] f run d r t post [THEN conjunct1]
        post [THEN conjunct2, THEN conjunct1] post [THEN conjunct2, THEN conjunct2])
qed

text \<open>
  C9. The whole effect of a successful \<open>update_drug_stock d\<close>: in Drugs exactly the rows with
  id \<open>d\<close> get stock 200, whether or not a restock order for \<open>d\<close> exists; in RestockOrders
  exactly the rows for drug \<open>d\<close>, whatever their status, become Delivered and Completed; in
  Tickets exactly the rows whose restock id belongs to a restock order for \<open>d\<close> become
  Closed; every other row, every other column and every other table is as before.
\<close>

theorem update_drug_stock_frame:
  assumes "update_drug_stock drug_id w = (Inr (True, m), w')"
  shows "Drugs (working w') =
           map (\<lambda>r. if D_id r = drug_id then r\<lparr>stock_no := 200\<rparr> else r) (Drugs (working w)) \<and>
         RestockOrders (working w') =
           map (\<lambda>r. if RO_DrugID r = drug_id
                    then r\<lparr>RO_Status := ''Delivered'', RO_PaymentStatus := Some ''Completed''\<rparr>
                    else r) (RestockOrders (working w)) \<and>
         Tickets (working w') =
           map (\<lambda>t. if \<exists>r \<in> set (RestockOrders (working w)).
                          RO_DrugID r = drug_id \<and> RO_RestockID r = T_RestockID t
                    then t\<lparr>T_Status := ''Closed''\<rparr> else t) (Tickets (working w)) \<and>
         (working w')\<lparr>Drugs := Drugs (working w), RestockOrders := RestockOrders (working w),
                      Tickets := Tickets (working w)\<rparr> = working w \<and>
         committed w' = working w'"
  by (intro conjI update_drug_stock_tables [OF assms] update_drug_stock_success(2) [OF assms])

theorem update_drug_stock_frame_witness:
  "\<exists>w'. update_drug_stock 1 (world_of pharmacy_db []) = (Inr (True, Stock_updated_to_200), w') \<and>
     filter (\<lambda>r. RO_DrugID r = 1) (RestockOrders pharmacy_db) = [] \<and>
     map (\<lambda>d. (D_id d, stock_no d)) (Drugs (working w')) = [(1, 200), (2, 100), (3, 101)] \<and>
     RestockOrders (working w') = RestockOrders pharmacy_db \<and>
     Tickets (working w') = Tickets pharmacy_db \<and>
     committed w' = working w'"
proof -
  obtain w' where
    run: "update_drug_stock 1 (world_of pharmacy_db []) = (Inr (True, Stock_updated_to_200), w')"
    using update_drug_stock_runs [of "world_of pharmacy_db []" 1] by auto
  note fr = update_drug_stock_frame [OF run]
  have n: "filter (\<lambda>r. RO_DrugID r = 1) (RestockOrders pharmacy_db) = []"
    by (simp add: pharmacy_db_def)
  have d: "map (\<lambda>d. (D_id d, stock_no d)) (Drugs (working w')) = [(1, 200), (2, 100), (3, 101)]"
    unfolding fr [THEN conjunct1] by (simp add: pharmacy_db_def)
  have r: "RestockOrders (working w') = RestockOrders pharmacy_db"
    unfolding fr [THEN conjunct2, THEN conjunct1] by (simp add: pharmacy_db_def)
  have t: "Tickets (working w') = Tickets pharmacy_db"
    unfolding fr [THEN conjunct2, THEN conjunct2, THEN conjunct1] by (simp add: pharmacy_db_def)
  show ?thesis
    by (intro exI [of _ w'] conjI run n d r t
        fr [THEN conjunct2, THEN conjunct2, THEN conjunct2, THEN conjunct2])
qed

subsection \<open>Restock order and ticket\<close>

lemmas create_restock_order_defs = create_restock_order_def clear_fetch_all_tickets_def
  clear_fetch_all_restock_orders_def clear_check_low_stock_def
  INSERT_INTO_RestockOrders_def INSERT_INTO_Tickets_def

lemma create_restock_order_returns:
  "\<exists>res w'. create_restock_order supplier_id drug_id quantity pharmacy_id w = (Inr res, w')"
  unfolding create_restock_order_defs by (auto simp add: io_defs)









subsection \<open>Accounts with an email that is already taken\<close>

lemma add_new_customer_duplicate:
  assumes "\<not> next_call_fails w" and "email \<in> set (map C_Email (Customers (working w)))"
  shows "add_new_customer name password email state number w =
           (Inr (False, Email_already_exists), advance w)"
  using assms unfolding add_new_customer_def INSERT_INTO_Customers_def clear_fetch_all_customers_def
  by (simp add: io_defs violates_unique_def)

lemma add_new_supplier_duplicate:
  assumes "\<not> next_call_fails w" and "email \<in> set (map S_ContactEmail (Suppliers (working w)))"
  shows "add_new_supplier name email contact_number address password w =
           (Inr (False, Email_already_exists, None), advance w)"
  using assms unfolding add_new_supplier_def INSERT_INTO_Suppliers_def clear_fetch_all_suppliers_def
  by (simp add: io_defs violates_unique_def)

lemma add_new_retail_pharmacist_duplicate:
  assumes "\<not> next_call_fails w"
    and "email \<in> set (map RP_PharmacyEmail (RetailPharmacies (working w)))"
  shows "add_new_retail_pharmacist name email password address phone_number billing_address tax_id w =
           (Inr (False, Email_already_exists, None), advance w)"
  using assms unfolding add_new_retail_pharmacist_def INSERT_INTO_RetailPharmacies_def
  by (simp add: io_defs violates_unique_def)

lemma add_new_customer_fresh:
  assumes "faults w = []" and "email \<notin> set (map C_Email (Customers (working w)))"
  shows "\<exists>w'. add_new_customer name password email state number w =
                (Inr (True, Customer_added), w') \<and>
              map C_Email (Customers (committed w')) =
                map C_Email (Customers (working w)) @ [email]"
  using assms unfolding add_new_customer_def INSERT_INTO_Customers_def clear_fetch_all_customers_def
  by (simp add: io_defs violates_unique_def)

lemma add_new_supplier_fresh:
  assumes "faults w = []" and "email \<notin> set (map S_ContactEmail (Suppliers (working w)))"
  shows "\<exists>w'. add_new_supplier name email contact_number address password w =
                (Inr (True, Supplier_created,
                      Some (next_rowid (map S_SupplierID (Suppliers (working w))))), w') \<and>
              map S_ContactEmail (Suppliers (committed w')) =
                map S_ContactEmail (Suppliers (working w)) @ [email]"
  using assms unfolding add_new_supplier_def INSERT_INTO_Suppliers_def clear_fetch_all_suppliers_def
  by (simp add: io_defs violates_unique_def)

lemma add_new_retail_pharmacist_fresh:
  assumes "faults w = []"
    and "email \<notin> set (map RP_PharmacyEmail (RetailPharmacies (working w)))"
  shows "\<exists>res w'. add_new_retail_pharmacist name email password address phone_number
                     billing_address tax_id w = (Inr res, w') \<and>
              map RP_PharmacyEmail (RetailPharmacies (committed w')) =
                map RP_PharmacyEmail (RetailPharmacies (working w)) @ [email]"
  using assms unfolding add_new_retail_pharmacist_def INSERT_INTO_RetailPharmacies_def
    fetch_payment_methods_def cache_data_def dict_subscript_def add_pharmacy_payment_def
    INSERT_INTO_PharmacyPayments_def SELECT_PaymentMethods_def select_def
  by (auto simp add: io_defs violates_unique_def split: option.splits)

text \<open>
  C6. When the store answers and the email is already that of a row of the table,
  \<open>add_new_customer\<close>, \<open>add_new_supplier\<close> and \<open>add_new_retail_pharmacist\<close> each return
  failure with the message "Error: Email already exists." (and no id), and the store is
  unchanged: no row is inserted, nothing is committed and no cache is cleared. With an email
  that is not yet in the table and a store that does not fail, the row is inserted and
  committed.
\<close>

theorem duplicate_email_is_rejected:
  "(\<not> next_call_fails w \<and> email \<in> set (map C_Email (Customers (working w))) \<longrightarrow>
      (\<exists>w'. add_new_customer name password email state number w =
               (Inr (False, Email_already_exists), w') \<and>
             committed w' = committed w \<and> working w' = working w \<and> cache w' = cache w)) \<and>
   (\<not> next_call_fails w \<and> email \<in> set (map S_ContactEmail (Suppliers (working w))) \<longrightarrow>
      (\<exists>w'. add_new_supplier name email contact_number address password w =
               (Inr (False, Email_already_exists, None), w') \<and>
             committed w' = committed w \<and> working w' = working w \<and> cache w' = cache w)) \<and>
   (\<not> next_call_fails w \<and>
      email \<in> set (map RP_PharmacyEmail (RetailPharmacies (working w))) \<longrightarrow>
      (\<exists>w'. add_new_retail_pharmacist name email password address phone_number
                billing_address tax_id w =
               (Inr (False, Email_already_exists, None), w') \<and>
             committed w' = committed w \<and> working w' = working w \<and> cache w' = cache w)) \<and>
   (faults w = [] \<and> email \<notin> set (map C_Email (Customers (working w))) \<longrightarrow>
      (\<exists>w'. add_new_customer name password email state number w =
               (Inr (True, Customer_added), w') \<and>
             map C_Email (Customers (committed w')) =
               map C_Email (Customers (working w)) @ [email])) \<and>
   (faults w = [] \<and> email \<notin> set (map S_ContactEmail (Suppliers (working w))) \<longrightarrow>
      (\<exists>w'. add_new_supplier name email contact_number address password w =
               (Inr (True, Supplier_created,
                     Some (next_rowid (map S_SupplierID (Suppliers (working w))))), w') \<and>
             map S_ContactEmail (Suppliers (committed w')) =
               map S_ContactEmail (Suppliers (working w)) @ [email])) \<and>
   (faults w = [] \<and> email \<notin> set (map RP_PharmacyEmail (RetailPharmacies (working w))) \<longrightarrow>
      (\<exists>res w'. add_new_retail_pharmacist name email password address phone_number
                billing_address tax_id w = (Inr res, w') \<and>
             map RP_PharmacyEmail (RetailPharmacies (committed w')) =
               map RP_PharmacyEmail (RetailPharmacies (working w)) @ [email]))"
proof (intro conjI impI)
  assume "\<not> next_call_fails w \<and> email \<in> set (map C_Email (Customers (working w)))"
  then have "add_new_customer name password email state number w =
               (Inr (False, Email_already_exists), advance w)"
    by (intro add_new_customer_duplicate) simp_all
  then show "\<exists>w'. add_new_customer name password email state number w =
               (Inr (False, Email_already_exists), w') \<and>
             committed w' = committed w \<and> working w' = working w \<and> cache w' = cache w"
    by simp
next
  assume "\<not> next_call_fails w \<and> email \<in> set (map S_ContactEmail (Suppliers (working w)))"
  then have "add_new_supplier name email contact_number address password w =
               (Inr (False, Email_already_exists, None), advance w)"
    by (intro add_new_supplier_duplicate) simp_all
  then show "\<exists>w'. add_new_supplier name email contact_number address password w =
               (Inr (False, Email_already_exists, None), w') \<and>
             committed w' = committed w \<and> working w' = working w \<and> cache w' = cache w"
    by simp
next
  assume "\<not> next_call_fails w \<and>
      email \<in> set (map RP_PharmacyEmail (RetailPharmacies (working w)))"
  then have "add_new_retail_pharmacist name email password address phone_number
                billing_address tax_id w =
               (Inr (False, Email_already_exists, None), advance w)"
    by (intro add_new_retail_pharmacist_duplicate) simp_all
  then show "\<exists>w'. add_new_retail_pharmacist name email password address phone_number
                billing_address tax_id w =
               (Inr (False, Email_already_exists, None), w') \<and>
             committed w' = committed w \<and> working w' = working w \<and> cache w' = cache w"
    by simp
next
  assume "faults w = [] \<and> email \<notin> set (map C_Email (Customers (working w)))"
  then show "\<exists>w'. add_new_customer name password email state number w =
               (Inr (True, Customer_added), w') \<and>
             map C_Email (Customers (committed w')) =
               map C_Email (Customers (working w)) @ [email]"
    by (intro add_new_customer_fresh) simp_all
next
  assume "faults w = [] \<and> email \<notin> set (map S_ContactEmail (Suppliers (working w)))"
  then show "\<exists>w'. add_new_supplier name email contact_number address password w =
               (Inr (True, Supplier_created,
                     Some (next_rowid (map S_SupplierID (Suppliers (working w))))), w') \<and>
             map S_ContactEmail (Suppliers (committed w')) =
               map S_ContactEmail (Suppliers (working w)) @ [email]"
    by (intro add_new_supplier_fresh) simp_all
next
  assume "faults w = [] \<and> email \<notin> set (map RP_PharmacyEmail (RetailPharmacies (working w)))"
  then show "\<exists>res w'. add_new_retail_pharmacist name email password address phone_number
                billing_address tax_id w = (Inr res, w') \<and>
             map RP_PharmacyEmail (RetailPharmacies (committed w')) =
               map RP_PharmacyEmail (RetailPharmacies (working w)) @ [email]"
    by (intro add_new_retail_pharmacist_fresh) simp_all
qed

theorem duplicate_email_is_rejected_witness:
  "(\<exists>w'. add_new_customer ''Asha B'' ''pw2'' ''asha@example.org'' ''TN'' ''101''
            (world_of pharmacy_db []) = (Inr (False, Email_already_exists), w') \<and>
          committed w' = pharmacy_db \<and> working w' = pharmacy_db) \<and>
   (\<exists>w'. add_new_supplier ''Medico B'' ''sales@medico.example'' ''201'' ''Delhi'' ''pw2''
            (world_of pharmacy_db []) = (Inr (False, Email_already_exists, None), w') \<and>
          committed w' = pharmacy_db \<and> working w' = pharmacy_db) \<and>
   (\<exists>w'. add_new_retail_pharmacist ''Corner B'' ''corner@example.org'' ''pw2'' ''Goa'' ''301''
            None None (world_of pharmacy_db []) = (Inr (False, Email_already_exists, None), w') \<and>
          committed w' = pharmacy_db \<and> working w' = pharmacy_db) \<and>
   (\<exists>w'. add_new_customer ''Binu'' ''pw3'' ''binu@example.org'' ''KL'' ''102''
            (world_of pharmacy_db []) = (Inr (True, Customer_added), w') \<and>
          map C_Email (Customers (committed w')) = [''asha@example.org'', ''binu@example.org'']) \<and>
   (\<exists>w'. add_new_supplier ''Pharmex'' ''hello@pharmex.example'' ''202'' ''Agra'' ''pw3''
            (world_of pharmacy_db []) = (Inr (True, Supplier_created, Some 2), w') \<and>
          map S_ContactEmail (Suppliers (committed w')) =
            [''sales@medico.example'', ''hello@pharmex.example'']) \<and>
   (\<exists>res w'. add_new_retail_pharmacist ''Square'' ''square@example.org'' ''pw3'' ''Ooty'' ''302''
            None None (world_of pharmacy_db []) = (Inr res, w') \<and>
          map RP_PharmacyEmail (RetailPharmacies (committed w')) =
            [''corner@example.org'', ''square@example.org''])"
proof (intro conjI)
  let ?w = "world_of pharmacy_db []"
  have ok: "\<not> next_call_fails ?w" "faults ?w = []" by simp_all
  have c: "''asha@example.org'' \<in> set (map C_Email (Customers (working ?w)))"
    "''binu@example.org'' \<notin> set (map C_Email (Customers (working ?w)))"
    "map C_Email (Customers (working ?w)) = [''asha@example.org'']"
    by (simp_all add: pharmacy_db_def)
  have s: "''sales@medico.example'' \<in> set (map S_ContactEmail (Suppliers (working ?w)))"
    "''hello@pharmex.example'' \<notin> set (map S_ContactEmail (Suppliers (working ?w)))"
    "map S_ContactEmail (Suppliers (working ?w)) = [''sales@medico.example'']"
    "next_rowid (map S_SupplierID (Suppliers (working ?w))) = 2"
    by (simp_all add: pharmacy_db_def next_rowid_def)
  have p: "''corner@example.org'' \<in> set (map RP_PharmacyEmail (RetailPharmacies (working ?w)))"
    "''square@example.org'' \<notin> set (map RP_PharmacyEmail (RetailPharmacies (working ?w)))"
    "map RP_PharmacyEmail (RetailPharmacies (working ?w)) = [''corner@example.org'']"
    by (simp_all add: pharmacy_db_def)
  show "\<exists>w'. add_new_customer ''Asha B'' ''pw2'' ''asha@example.org'' ''TN'' ''101'' ?w =
            (Inr (False, Email_already_exists), w') \<and>
          committed w' = pharmacy_db \<and> working w' = pharmacy_db"
    using duplicate_email_is_rejected [where w = ?w and email = "''asha@example.org''" and name = "''Asha B''"
        and password = "''pw2''" and state = "''TN''" and number = "''101''",
        THEN conjunct1, rule_format, OF conjI, OF ok(1) c(1)]
    by simp blast
  show "\<exists>w'. add_new_supplier ''Medico B'' ''sales@medico.example'' ''201'' ''Delhi'' ''pw2'' ?w =
            (Inr (False, Email_already_exists, None), w') \<and>
          committed w' = pharmacy_db \<and> working w' = pharmacy_db"
    using duplicate_email_is_rejected [where w = ?w and email = "''sales@medico.example''" and name = "''Medico B''"
        and contact_number = "''201''" and address = "''Delhi''" and password = "''pw2''",
        THEN conjunct2, THEN conjunct1, rule_format, OF conjI, OF ok(1) s(1)]
    by simp blast
  show "\<exists>w'. add_new_retail_pharmacist ''Corner B'' ''corner@example.org'' ''pw2'' ''Goa'' ''301''
            None None ?w = (Inr (False, Email_already_exists, None), w') \<and>
          committed w' = pharmacy_db \<and> working w' = pharmacy_db"
    using duplicate_email_is_rejected [where w = ?w and email = "''corner@example.org''" and name = "''Corner B''"
        and password = "''pw2''" and address = "''Goa''" and phone_number = "''301''"
        and billing_address = None and tax_id = None,
        THEN conjunct2, THEN conjunct2, THEN conjunct1, rule_format, OF conjI, OF ok(1) p(1)]
    by simp blast
  show "\<exists>w'. add_new_customer ''Binu'' ''pw3'' ''binu@example.org'' ''KL'' ''102'' ?w =
            (Inr (True, Customer_added), w') \<and>
          map C_Email (Customers (committed w')) = [''asha@example.org'', ''binu@example.org'']"
    using duplicate_email_is_rejected [where w = ?w and email = "''binu@example.org''" and name = "''Binu''"
        and password = "''pw3''" and state = "''KL''" and number = "''102''",
        THEN conjunct2, THEN conjunct2, THEN conjunct2, THEN conjunct1, rule_format,
        OF conjI, OF ok(2) c(2)]
    unfolding c(3) by simp
  show "\<exists>w'. add_new_supplier ''Pharmex'' ''hello@pharmex.example'' ''202'' ''Agra'' ''pw3'' ?w =
            (Inr (True, Supplier_created, Some 2), w') \<and>
          map S_ContactEmail (Suppliers (committed w')) =
            [''sales@medico.example'', ''hello@pharmex.example'']"
    using duplicate_email_is_rejected [where w = ?w and email = "''hello@pharmex.example''" and name = "''Pharmex''"
        and contact_number = "''202''" and address = "''Agra''" and password = "''pw3''",
        THEN conjunct2, THEN conjunct2, THEN conjunct2, THEN conjunct2, THEN conjunct1,
        rule_format, OF conjI, OF ok(2) s(2)]
    unfolding s(3) s(4) by simp
  show "\<exists>res w'. add_new_retail_pharmacist ''Square'' ''square@example.org'' ''pw3'' ''Ooty''
            ''302'' None None ?w = (Inr res, w') \<and>
          map RP_PharmacyEmail (RetailPharmacies (committed w')) =
            [''corner@example.org'', ''square@example.org'']"
    using duplicate_email_is_rejected [where w = ?w and email = "''square@example.org''" and name = "''Square''"
        and password = "''pw3''" and address = "''Ooty''" and phone_number = "''302''"
        and billing_address = None and tax_id = None,
        THEN conjunct2, THEN conjunct2, THEN conjunct2, THEN conjunct2, THEN conjunct2,
        rule_format, OF conjI, OF ok(2) p(2)]
    unfolding p(3) by simp
qed

subsection \<open>Cached reads after a restock payment\<close>

lemmas create_restock_payment_defs = create_restock_payment_def INSERT_INTO_Payments_def
  UPDATE_RestockOrders_SET_PaymentStatus_def INSERT_INTO_SupplierNotifications_def

lemma create_restock_payment_runs:
  assumes "faults w = []"
  shows "\<exists>w'. create_restock_payment pharmacy_id supplier_id amount payment_method_id restock_id
                 status notes w =
               (Inr (True, Payment_created, Some (next_rowid (map P_PaymentID (Payments (working w))))),
                w')"
  using assms unfolding create_restock_payment_defs
  by (simp add: io_defs del: set_map)

lemma create_restock_payment_success:
  assumes "create_restock_payment pharmacy_id supplier_id amount payment_method_id restock_id
             status notes w = (Inr (True, m, payment_id), w')"
  shows "cache w' = cache w"
    and "committed w' = working w'"
    and "Payments (working w') = Payments (working w) @
           [\<lparr>P_PaymentID = next_rowid (map P_PaymentID (Payments (working w))),
             P_PharmacyID = pharmacy_id, P_SupplierID = supplier_id, P_Amount = amount,
             P_PaymentMethodID = payment_method_id, P_Status = status, P_Notes = notes,
             P_TransactionReference = ''Restock-'' @ str_int restock_id\<rparr>]"
    and "RestockOrders (working w') =
           map (\<lambda>r. if RO_RestockID r = restock_id then r\<lparr>RO_PaymentStatus := Some status\<rparr> else r)
             (RestockOrders (working w))"
    and "SupplierNotifications (working w') = SupplierNotifications (working w) @
           [\<lparr>SN_NotificationID = next_rowid (map SN_NotificationID (SupplierNotifications (working w))),
             SN_SupplierID = supplier_id, SN_Title = ''New Restock Payment'',
             SN_Message = Payment_initiated amount restock_id,
             SN_RelatedEntityType = ''Payment'',
             SN_RelatedEntityID = next_rowid (map P_PaymentID (Payments (working w)))\<rparr>]"
  using assms unfolding create_restock_payment_defs
  by (auto simp add: io_defs simp del: set_map split: if_splits)

lemma update_stock_after_order_cache:
  assumes "update_stock_after_order drug_name quantity w = (Inr (True, m), w')"
  shows "cache w' = (cache w)\<lparr>cached_fetch_all_drugs := None\<rparr>"
    and "cached_check_low_stock (cache w') = cached_check_low_stock (cache w)"
  using assms unfolding update_stock_after_order_def SELECT_D_id_stock_no_WHERE_D_Name_def
    UPDATE_Drugs_SET_stock_no_minus_def clear_fetch_all_drugs_def select_def fetchone_def
  by (auto simp add: io_defs simp del: set_map set_filter split: if_splits list.splits)

lemma after_reads_simps:
  "faults after_reads = []"
  "working after_reads = pharmacy_db"
  "committed after_reads = pharmacy_db"
  "cached_fetch_all_payments (cache after_reads) = Some []"
  "cached_fetch_supplier_notifications (cache after_reads) 1 = Some []"
  "cached_fetch_all_restock_orders (cache after_reads) = Some (RestockOrders pharmacy_db)"
  unfolding after_reads_def fetch_all_restock_orders_def fetch_supplier_notifications_def
    fetch_all_payments_def cache_data_def select_def
  by (simp_all add: io_defs empty_caches_def pharmacy_db_def)

text \<open>
  C7. \<open>create_restock_payment\<close> inserts into Payments, updates RestockOrders, inserts into
  SupplierNotifications and returns success without clearing any cached accessor. On the
  pharmacy whose three reads are cached, paying 200 for restock order 1 succeeds with payment
  id 1; the committed store then holds the payment and the notification, the cache is what it
  was, and \<open>fetch_all_payments\<close> and \<open>fetch_supplier_notifications 1\<close> still return their empty
  snapshots.
\<close>

theorem restock_payment_leaves_stale_reads:
  "fst (create_restock_payment 1 1 200 1 1 ''Pending'' None after_reads) =
     Inr (True, Payment_created, Some 1) \<and>
   cache (snd (create_restock_payment 1 1 200 1 1 ''Pending'' None after_reads)) =
     cache after_reads \<and>
   map P_Amount (Payments (committed
     (snd (create_restock_payment 1 1 200 1 1 ''Pending'' None after_reads)))) = [200] \<and>
   fst (fetch_all_payments
     (snd (create_restock_payment 1 1 200 1 1 ''Pending'' None after_reads))) = Inr [] \<and>
   map SN_Message (SupplierNotifications (committed
     (snd (create_restock_payment 1 1 200 1 1 ''Pending'' None after_reads)))) =
     [Payment_initiated 200 1] \<and>
   fst (fetch_supplier_notifications 1
     (snd (create_restock_payment 1 1 200 1 1 ''Pending'' None after_reads))) = Inr [] \<and>
   fst (fetch_all_restock_orders
     (snd (create_restock_payment 1 1 200 1 1 ''Pending'' None after_reads))) =
     Inr (RestockOrders pharmacy_db)"
proof -
  have n: "next_rowid (map P_PaymentID (Payments (working after_reads))) = 1"
    by (simp add: after_reads_simps pharmacy_db_def next_rowid_def)
  obtain w' where run: "create_restock_payment 1 1 200 1 1 ''Pending'' None after_reads =
      (Inr (True, Payment_created, Some 1), w')"
    using create_restock_payment_runs [OF after_reads_simps(1), of 1 1 200 1 1 "''Pending''" None]
    unfolding n by (elim exE)
  note s = create_restock_payment_success [OF run]
  have c: "cache w' = cache after_reads" by (rule s(1))
  have p: "map P_Amount (Payments (committed w')) = [200]"
    unfolding s(2) s(3) by (simp add: after_reads_simps pharmacy_db_def)
  have m: "map SN_Message (SupplierNotifications (committed w')) = [Payment_initiated 200 1]"
    unfolding s(2) s(5) by (simp add: after_reads_simps pharmacy_db_def)
  have fp: "fst (fetch_all_payments w') = Inr []"
    unfolding fetch_all_payments_def cache_data_def by (simp add: c after_reads_simps)
  have fn: "fst (fetch_supplier_notifications 1 w') = Inr []"
    unfolding fetch_supplier_notifications_def cache_data_def by (simp add: c after_reads_simps)
  have fr: "fst (fetch_all_restock_orders w') = Inr (RestockOrders pharmacy_db)"
    unfolding fetch_all_restock_orders_def cache_data_def by (simp add: c after_reads_simps)
  show ?thesis
    unfolding run fst_conv snd_conv by (intro conjI refl c p fp m fn fr)
qed

subsection \<open>Order placement\<close>

lemmas add_new_order_defs = add_new_order_def update_stock_after_order_def
  SELECT_D_id_stock_no_WHERE_D_Name_def UPDATE_Drugs_SET_stock_no_minus_def
  clear_fetch_all_drugs_def INSERT_INTO_Orders_def order_amount_def
  SELECT_D_Price_WHERE_D_Name_def subscript_def fetchone_def fetch_payment_methods_def
  cache_data_def SELECT_PaymentMethods_def create_payment_def select_def
  clear_fetch_all_orders_def clear_fetch_all_payments_def

lemma add_new_order_returns:
  "\<exists>res w'. add_new_order pharmacy_id name items quantity payment_method current_date w =
              (Inr res, w')"
  unfolding add_new_order_def by (auto simp add: try_except_def returns_def split: prod.splits sum.splits)

lemma add_new_order_lookup_fails:
  assumes "next_call_fails w"
  shows "add_new_order pharmacy_id name items quantity payment_method current_date w =
           (Inr (False, Error_updating_stock OperationalError), advance w)"
  using assms unfolding add_new_order_defs
  by (simp add: io_defs del: set_map set_filter)

lemma add_new_order_not_found:
  assumes "\<not> next_call_fails w"
    and "filter (\<lambda>r. D_Name r = items) (Drugs (working w)) = []"
  shows "add_new_order pharmacy_id name items quantity payment_method current_date w =
           (Inr (False, Drug_not_found), advance w)"
  using assms unfolding add_new_order_defs
  by (simp add: io_defs del: set_map set_filter)

lemma add_new_order_insufficient:
  assumes "\<not> next_call_fails w"
    and "filter (\<lambda>r. D_Name r = items) (Drugs (working w)) = r # rest"
    and "stock_no r < quantity"
  shows "add_new_order pharmacy_id name items quantity payment_method current_date w =
           (Inr (False, Not_enough_stock (stock_no r)), advance w)"
  using assms unfolding add_new_order_defs
  by (simp add: io_defs del: set_map set_filter)

lemma add_new_order_update_fails:
  assumes "\<not> next_call_fails w"
    and "filter (\<lambda>r. D_Name r = items) (Drugs (working w)) = r # rest"
    and "\<not> stock_no r < quantity"
    and "next_call_fails (advance w)"
  shows "add_new_order pharmacy_id name items quantity payment_method current_date w =
           (Inr (False, Error_updating_stock OperationalError), advance (advance w))"
  using assms unfolding add_new_order_defs
  by (simp add: io_defs del: set_map set_filter)

lemma add_new_order_stock_commit_fails:
  assumes "\<not> next_call_fails w"
    and "filter (\<lambda>r. D_Name r = items) (Drugs (working w)) = r # rest"
    and "\<not> stock_no r < quantity"
    and "\<not> next_call_fails (advance w)"
    and "next_call_fails (advance (advance w))"
  shows "add_new_order pharmacy_id name items quantity payment_method current_date w =
           (Inr (False, Error_updating_stock OperationalError),
            (advance (advance (advance w)))\<lparr>working := (working w)\<lparr>Drugs :=
               map (\<lambda>x. if D_id x = D_id r then x\<lparr>stock_no := stock_no x - quantity\<rparr> else x)
                 (Drugs (working w))\<rparr>\<rparr>)"
  using assms unfolding add_new_order_defs
  by (simp add: io_defs del: set_map set_filter)

lemma add_new_order_insert_fails:
  assumes "\<not> next_call_fails w"
    and "filter (\<lambda>r. D_Name r = items) (Drugs (working w)) = r # rest"
    and "\<not> stock_no r < quantity"
    and "\<not> next_call_fails (advance w)"
    and "\<not> next_call_fails (advance (advance w))"
    and "next_call_fails (advance (advance (advance w)))"
  shows "\<exists>w'. add_new_order pharmacy_id name items quantity payment_method current_date w =
           (Inr (False, Error OperationalError), w') \<and>
         committed w' = (working w)\<lparr>Drugs :=
               map (\<lambda>x. if D_id x = D_id r then x\<lparr>stock_no := stock_no x - quantity\<rparr> else x)
                 (Drugs (working w))\<rparr> \<and>
         working w' = committed w'"
  using assms unfolding add_new_order_defs
  by (simp add: io_defs del: set_map set_filter)

lemma named_rows_after_stock_update:
  "filter (\<lambda>r. D_Name r = items)
     (map (\<lambda>x. if D_id x = i then x\<lparr>stock_no := stock_no x - q\<rparr> else x) xs) =
   map (\<lambda>x. if D_id x = i then x\<lparr>stock_no := stock_no x - q\<rparr> else x)
     (filter (\<lambda>r. D_Name r = items) xs)"
  by (induction xs) auto

lemma add_new_order_price_query_fails:
  assumes "\<not> next_call_fails w"
    and "filter (\<lambda>r. D_Name r = items) (Drugs (working w)) = r # rest"
    and "\<not> stock_no r < quantity"
    and "\<not> next_call_fails (advance w)"
    and "\<not> next_call_fails (advance (advance w))"
    and "\<not> next_call_fails (advance (advance (advance w)))"
    and "next_call_fails (advance (advance (advance (advance w))))"
  shows "\<exists>w'. add_new_order pharmacy_id name items quantity payment_method current_date w =
           (Inr (False, Error OperationalError), w') \<and>
         committed w' = (working w)\<lparr>Drugs :=
               map (\<lambda>x. if D_id x = D_id r then x\<lparr>stock_no := stock_no x - quantity\<rparr> else x)
                 (Drugs (working w))\<rparr> \<and>
         working w' = (committed w')\<lparr>Orders := Orders (working w) @
               [\<lparr>O_id = next_rowid (map O_id (Orders (working w))), O_Name = name,
                 O_Items = items, O_Qty = quantity, O_Date = current_date\<rparr>]\<rparr>"
  using assms unfolding add_new_order_defs
  by (simp add: io_defs del: set_map set_filter)

lemma add_new_order_methods_query_fails:
  assumes "\<not> next_call_fails w"
    and "filter (\<lambda>r. D_Name r = items) (Drugs (working w)) = r # rest"
    and "\<not> stock_no r < quantity"
    and "\<not> next_call_fails (advance w)"
    and "\<not> next_call_fails (advance (advance w))"
    and "\<not> next_call_fails (advance (advance (advance w)))"
    and "\<not> next_call_fails (advance (advance (advance (advance w))))"
    and "cached_fetch_payment_methods (cache w) = None"
    and "next_call_fails (advance (advance (advance (advance (advance w)))))"
  shows "\<exists>w'. add_new_order pharmacy_id name items quantity payment_method current_date w =
           (Inr (False, Error OperationalError), w') \<and>
         committed w' = (working w)\<lparr>Drugs :=
               map (\<lambda>x. if D_id x = D_id r then x\<lparr>stock_no := stock_no x - quantity\<rparr> else x)
                 (Drugs (working w))\<rparr> \<and>
         working w' = (committed w')\<lparr>Orders := Orders (working w) @
               [\<lparr>O_id = next_rowid (map O_id (Orders (working w))), O_Name = name,
                 O_Items = items, O_Qty = quantity, O_Date = current_date\<rparr>]\<rparr>"
  using assms unfolding add_new_order_defs
  by (simp add: io_defs named_rows_after_stock_update del: set_map set_filter)

text \<open>
  C3. Order placement always returns a result. When the drug lookup is answered and no drug
  has the name, it fails with "Drug not found."; when the first drug of that name has less
  stock than the quantity, it fails with "Not enough stock available. Current stock: ..." and
  that stock; in both cases the store is unchanged. A store failure at any call on the
  connection that the function reaches is caught and reported as failure with a message. No
  partial state remains when the store fails at the drug lookup or at the stock update; when
  it fails at the commit of the stock update the committed store is unchanged and the
  decrement stays in the connection's open transaction; when it fails later, at the insert of
  the order, at the price query or at the query of the payment methods, the stock update has
  been committed and stays committed without an order: the module never rolls back.
\<close>

theorem order_placement_failures:
  "(\<exists>res w'. add_new_order pharmacy_id name items quantity payment_method current_date w = (Inr res, w')) \<and>
   (next_call_fails w \<longrightarrow>
      (\<exists>w'. add_new_order pharmacy_id name items quantity payment_method current_date w =
          (Inr (False, Error_updating_stock OperationalError), w') \<and>
          committed w' = committed w \<and> working w' = working w)) \<and>
   (\<not> next_call_fails w \<and>
      filter (\<lambda>r. D_Name r = items) (Drugs (working w)) = [] \<longrightarrow>
      (\<exists>w'. add_new_order pharmacy_id name items quantity payment_method current_date w =
          (Inr (False, Drug_not_found), w') \<and>
          committed w' = committed w \<and> working w' = working w)) \<and>
   (\<not> next_call_fails w \<and>
      filter (\<lambda>r. D_Name r = items) (Drugs (working w)) = r # rest \<and>
      stock_no r < quantity \<longrightarrow>
      (\<exists>w'. add_new_order pharmacy_id name items quantity payment_method current_date w =
          (Inr (False, Not_enough_stock (stock_no r)), w') \<and>
          committed w' = committed w \<and> working w' = working w)) \<and>
   (\<not> next_call_fails w \<and>
      filter (\<lambda>r. D_Name r = items) (Drugs (working w)) = r # rest \<and>
      \<not> stock_no r < quantity \<and>
      next_call_fails (advance w) \<longrightarrow>
      (\<exists>w'. add_new_order pharmacy_id name items quantity payment_method current_date w =
          (Inr (False, Error_updating_stock OperationalError), w') \<and>
          committed w' = committed w \<and> working w' = working w)) \<and>
   (\<not> next_call_fails w \<and>
      filter (\<lambda>r. D_Name r = items) (Drugs (working w)) = r # rest \<and>
      \<not> stock_no r < quantity \<and>
      \<not> next_call_fails (advance w) \<and>
      next_call_fails (advance (advance w)) \<longrightarrow>
      (\<exists>w'. add_new_order pharmacy_id name items quantity payment_method current_date w =
          (Inr (False, Error_updating_stock OperationalError), w') \<and>
          committed w' = committed w \<and>
          working w' = (working w)\<lparr>Drugs :=
            map (\<lambda>x. if D_id x = D_id r then x\<lparr>stock_no := stock_no x - quantity\<rparr> else x)
              (Drugs (working w))\<rparr>)) \<and>
   (\<not> next_call_fails w \<and>
      filter (\<lambda>r. D_Name r = items) (Drugs (working w)) = r # rest \<and>
      \<not> stock_no r < quantity \<and>
      \<not> next_call_fails (advance w) \<and>
      \<not> next_call_fails (advance (advance w)) \<and>
      next_call_fails (advance (advance (advance w))) \<longrightarrow>
      (\<exists>w'. add_new_order pharmacy_id name items quantity payment_method current_date w =
          (Inr (False, Error OperationalError), w') \<and>
          committed w' = (working w)\<lparr>Drugs :=
            map (\<lambda>x. if D_id x = D_id r then x\<lparr>stock_no := stock_no x - quantity\<rparr> else x)
              (Drugs (working w))\<rparr> \<and>
          working w' = committed w')) \<and>
   (\<not> next_call_fails w \<and>
      filter (\<lambda>r. D_Name r = items) (Drugs (working w)) = r # rest \<and>
      \<not> stock_no r < quantity \<and>
      \<not> next_call_fails (advance w) \<and>
      \<not> next_call_fails (advance (advance w)) \<and>
      \<not> next_call_fails (advance (advance (advance w))) \<and>
      next_call_fails (advance (advance (advance (advance w)))) \<longrightarrow>
      (\<exists>w'. add_new_order pharmacy_id name items quantity payment_method current_date w =
          (Inr (False, Error OperationalError), w') \<and>
          committed w' = (working w)\<lparr>Drugs :=
            map (\<lambda>x. if D_id x = D_id r then x\<lparr>stock_no := stock_no x - quantity\<rparr> else x)
              (Drugs (working w))\<rparr> \<and>
          working w' = (committed w')\<lparr>Orders := Orders (working w) @
            [\<lparr>O_id = next_rowid (map O_id (Orders (working w))), O_Name = name,
              O_Items = items, O_Qty = quantity, O_Date = current_date\<rparr>]\<rparr>)) \<and>
   (\<not> next_call_fails w \<and>
      filter (\<lambda>r. D_Name r = items) (Drugs (working w)) = r # rest \<and>
      \<not> stock_no r < quantity \<and>
      \<not> next_call_fails (advance w) \<and>
      \<not> next_call_fails (advance (advance w)) \<and>
      \<not> next_call_fails (advance (advance (advance w))) \<and>
      \<not> next_call_fails (advance (advance (advance (advance w)))) \<and>
      cached_fetch_payment_methods (cache w) = None \<and>
      next_call_fails (advance (advance (advance (advance (advance w))))) \<longrightarrow>
      (\<exists>w'. add_new_order pharmacy_id name items quantity payment_method current_date w =
          (Inr (False, Error OperationalError), w') \<and>
          committed w' = (working w)\<lparr>Drugs :=
            map (\<lambda>x. if D_id x = D_id r then x\<lparr>stock_no := stock_no x - quantity\<rparr> else x)
              (Drugs (working w))\<rparr> \<and>
          working w' = (committed w')\<lparr>Orders := Orders (working w) @
            [\<lparr>O_id = next_rowid (map O_id (Orders (working w))), O_Name = name,
              O_Items = items, O_Qty = quantity, O_Date = current_date\<rparr>]\<rparr>))"
proof (intro conjI impI)
  show "\<exists>res w'. add_new_order pharmacy_id name items quantity payment_method current_date w = (Inr res, w')"
    by (rule add_new_order_returns)
next
  assume "next_call_fails w"
  then show "\<exists>w'. add_new_order pharmacy_id name items quantity payment_method current_date w =
          (Inr (False, Error_updating_stock OperationalError), w') \<and>
          committed w' = committed w \<and> working w' = working w"
    by (simp add: add_new_order_lookup_fails)
next
  assume "\<not> next_call_fails w \<and>
      filter (\<lambda>r. D_Name r = items) (Drugs (working w)) = []"
  then show "\<exists>w'. add_new_order pharmacy_id name items quantity payment_method current_date w =
          (Inr (False, Drug_not_found), w') \<and>
          committed w' = committed w \<and> working w' = working w"
    by (simp add: add_new_order_not_found)
next
  assume "\<not> next_call_fails w \<and>
      filter (\<lambda>r. D_Name r = items) (Drugs (working w)) = r # rest \<and>
      stock_no r < quantity"
  then show "\<exists>w'. add_new_order pharmacy_id name items quantity payment_method current_date w =
          (Inr (False, Not_enough_stock (stock_no r)), w') \<and>
          committed w' = committed w \<and> working w' = working w"
    by (simp add: add_new_order_insufficient)
next
  assume "\<not> next_call_fails w \<and>
      filter (\<lambda>r. D_Name r = items) (Drugs (working w)) = r # rest \<and>
      \<not> stock_no r < quantity \<and>
      next_call_fails (advance w)"
  then show "\<exists>w'. add_new_order pharmacy_id name items quantity payment_method current_date w =
          (Inr (False, Error_updating_stock OperationalError), w') \<and>
          committed w' = committed w \<and> working w' = working w"
    by (simp add: add_new_order_update_fails)
next
  assume "\<not> next_call_fails w \<and>
      filter (\<lambda>r. D_Name r = items) (Drugs (working w)) = r # rest \<and>
      \<not> stock_no r < quantity \<and>
      \<not> next_call_fails (advance w) \<and>
      next_call_fails (advance (advance w))"
  then show "\<exists>w'. add_new_order pharmacy_id name items quantity payment_method current_date w =
          (Inr (False, Error_updating_stock OperationalError), w') \<and>
          committed w' = committed w \<and>
          working w' = (working w)\<lparr>Drugs :=
            map (\<lambda>x. if D_id x = D_id r then x\<lparr>stock_no := stock_no x - quantity\<rparr> else x)
              (Drugs (working w))\<rparr>"
    by (simp add: add_new_order_stock_commit_fails)
next
  assume "\<not> next_call_fails w \<and>
      filter (\<lambda>r. D_Name r = items) (Drugs (working w)) = r # rest \<and>
      \<not> stock_no r < quantity \<and>
      \<not> next_call_fails (advance w) \<and>
      \<not> next_call_fails (advance (advance w)) \<and>
      next_call_fails (advance (advance (advance w)))"
  then show "\<exists>w'. add_new_order pharmacy_id name items quantity payment_method current_date w =
          (Inr (False, Error OperationalError), w') \<and>
          committed w' = (working w)\<lparr>Drugs :=
            map (\<lambda>x. if D_id x = D_id r then x\<lparr>stock_no := stock_no x - quantity\<rparr> else x)
              (Drugs (working w))\<rparr> \<and>
          working w' = committed w'"
    by (simp add: add_new_order_insert_fails)
next
  assume "\<not> next_call_fails w \<and>
      filter (\<lambda>r. D_Name r = items) (Drugs (working w)) = r # rest \<and>
      \<not> stock_no r < quantity \<and>
      \<not> next_call_fails (advance w) \<and>
      \<not> next_call_fails (advance (advance w)) \<and>
      \<not> next_call_fails (advance (advance (advance w))) \<and>
      next_call_fails (advance (advance (advance (advance w))))"
  then show "\<exists>w'. add_new_order pharmacy_id name items quantity payment_method current_date w =
          (Inr (False, Error OperationalError), w') \<and>
          committed w' = (working w)\<lparr>Drugs :=
            map (\<lambda>x. if D_id x = D_id r then x\<lparr>stock_no := stock_no x - quantity\<rparr> else x)
              (Drugs (working w))\<rparr> \<and>
          working w' = (committed w')\<lparr>Orders := Orders (working w) @
            [\<lparr>O_id = next_rowid (map O_id (Orders (working w))), O_Name = name,
              O_Items = items, O_Qty = quantity, O_Date = current_date\<rparr>]\<rparr>"
    by (simp add: add_new_order_price_query_fails)
next
  assume "\<not> next_call_fails w \<and>
      filter (\<lambda>r. D_Name r = items) (Drugs (working w)) = r # rest \<and>
      \<not> stock_no r < quantity \<and>
      \<not> next_call_fails (advance w) \<and>
      \<not> next_call_fails (advance (advance w)) \<and>
      \<not> next_call_fails (advance (advance (advance w))) \<and>
      \<not> next_call_fails (advance (advance (advance (advance w)))) \<and>
      cached_fetch_payment_methods (cache w) = None \<and>
      next_call_fails (advance (advance (advance (advance (advance w)))))"
  then show "\<exists>w'. add_new_order pharmacy_id name items quantity payment_method current_date w =
          (Inr (False, Error OperationalError), w') \<and>
          committed w' = (working w)\<lparr>Drugs :=
            map (\<lambda>x. if D_id x = D_id r then x\<lparr>stock_no := stock_no x - quantity\<rparr> else x)
              (Drugs (working w))\<rparr> \<and>
          working w' = (committed w')\<lparr>Orders := Orders (working w) @
            [\<lparr>O_id = next_rowid (map O_id (Orders (working w))), O_Name = name,
              O_Items = items, O_Qty = quantity, O_Date = current_date\<rparr>]\<rparr>"
    by (simp add: add_new_order_methods_query_fails)
qed

theorem order_placement_failures_witness:
  "(\<exists>w'. add_new_order 1 ''Asha'' ''Paracetamol'' 5 ''COD'' ''2025-01-01 10:00:00''
            (world_of pharmacy_db [True]) =
          (Inr (False, Error_updating_stock OperationalError), w') \<and>
        committed w' = pharmacy_db \<and> working w' = pharmacy_db) \<and>
   (\<exists>w'. add_new_order 1 ''Asha'' ''Zinc'' 5 ''COD'' ''2025-01-01 10:00:00''
            (world_of pharmacy_db []) =
          (Inr (False, Drug_not_found), w') \<and>
        committed w' = pharmacy_db \<and> working w' = pharmacy_db) \<and>
   (\<exists>w'. add_new_order 1 ''Asha'' ''Paracetamol'' 151 ''COD'' ''2025-01-01 10:00:00''
            (world_of pharmacy_db []) =
          (Inr (False, Not_enough_stock 150), w') \<and>
        committed w' = pharmacy_db \<and> working w' = pharmacy_db) \<and>
   (\<exists>w'. add_new_order 1 ''Asha'' ''Paracetamol'' 5 ''COD'' ''2025-01-01 10:00:00''
            (world_of pharmacy_db [False, True]) =
          (Inr (False, Error_updating_stock OperationalError), w') \<and>
        committed w' = pharmacy_db \<and> working w' = pharmacy_db) \<and>
   (\<exists>w'. add_new_order 1 ''Asha'' ''Paracetamol'' 5 ''COD'' ''2025-01-01 10:00:00''
            (world_of pharmacy_db [False, False, True]) =
          (Inr (False, Error_updating_stock OperationalError), w') \<and>
        committed w' = pharmacy_db \<and> map stock_no (Drugs (working w')) = [145, 100, 101]) \<and>
   (\<exists>w'. add_new_order 1 ''Asha'' ''Paracetamol'' 5 ''COD'' ''2025-01-01 10:00:00''
            (world_of pharmacy_db [False, False, False, True]) =
          (Inr (False, Error OperationalError), w') \<and>
        map stock_no (Drugs (committed w')) = [145, 100, 101] \<and> Orders (committed w') = []) \<and>
   (\<exists>w'. add_new_order 1 ''Asha'' ''Paracetamol'' 5 ''COD'' ''2025-01-01 10:00:00''
            (world_of pharmacy_db [False, False, False, False, True]) =
          (Inr (False, Error OperationalError), w') \<and>
        map stock_no (Drugs (committed w')) = [145, 100, 101] \<and> map O_Items (Orders (working w')) = [''Paracetamol'']) \<and>
   (\<exists>w'. add_new_order 1 ''Asha'' ''Paracetamol'' 5 ''COD'' ''2025-01-01 10:00:00''
            (world_of pharmacy_db [False, False, False, False, False, True]) =
          (Inr (False, Error OperationalError), w') \<and>
        map stock_no (Drugs (committed w')) = [145, 100, 101] \<and> Orders (committed w') = [])"
proof (intro conjI)
  have s: "stock_no (hd (Drugs pharmacy_db)) = 150" by (simp add: pharmacy_db_def)
  have h1: "next_call_fails (world_of pharmacy_db [True])"
    by (simp add: next_call_fails_def pharmacy_db_def empty_caches_def)
  from order_placement_failures [where pharmacy_id = 1 and name = "''Asha''" and items = "''Paracetamol''"
        and quantity = 5 and payment_method = "''COD''" and current_date = "''2025-01-01 10:00:00''"
        and w = "world_of pharmacy_db [True]" and r = "hd (Drugs pharmacy_db)" and rest = "[]",
        THEN conjunct2, THEN conjunct1, rule_format, OF h1]
  obtain w1 where run1: "add_new_order 1 ''Asha'' ''Paracetamol'' 5 ''COD'' ''2025-01-01 10:00:00''
            (world_of pharmacy_db [True]) =
          (Inr (False, Error_updating_stock OperationalError), w1)"
    and a1: "committed w1 = pharmacy_db"
    and b1: "working w1 = pharmacy_db"
    unfolding s by (elim exE conjE) (simp add: pharmacy_db_def)
  show "\<exists>w'. add_new_order 1 ''Asha'' ''Paracetamol'' 5 ''COD'' ''2025-01-01 10:00:00''
            (world_of pharmacy_db [True]) =
          (Inr (False, Error_updating_stock OperationalError), w') \<and>
        committed w' = pharmacy_db \<and> working w' = pharmacy_db"
    by (intro exI [of _ w1] conjI run1 a1 b1)
  have h2: "\<not> next_call_fails (world_of pharmacy_db []) \<and>
          filter (\<lambda>r. D_Name r = ''Zinc'') (Drugs (working (world_of pharmacy_db []))) = []"
    by (simp add: next_call_fails_def pharmacy_db_def empty_caches_def)
  from order_placement_failures [where pharmacy_id = 1 and name = "''Asha''" and items = "''Zinc''"
        and quantity = 5 and payment_method = "''COD''" and current_date = "''2025-01-01 10:00:00''"
        and w = "world_of pharmacy_db []" and r = "hd (Drugs pharmacy_db)" and rest = "[]",
        THEN conjunct2, THEN conjunct2, THEN conjunct1, rule_format, OF h2]
  obtain w2 where run2: "add_new_order 1 ''Asha'' ''Zinc'' 5 ''COD'' ''2025-01-01 10:00:00''
            (world_of pharmacy_db []) =
          (Inr (False, Drug_not_found), w2)"
    and a2: "committed w2 = pharmacy_db"
    and b2: "working w2 = pharmacy_db"
    unfolding s by (elim exE conjE) (simp add: pharmacy_db_def)
  show "\<exists>w'. add_new_order 1 ''Asha'' ''Zinc'' 5 ''COD'' ''2025-01-01 10:00:00''
            (world_of pharmacy_db []) =
          (Inr (False, Drug_not_found), w') \<and>
        committed w' = pharmacy_db \<and> working w' = pharmacy_db"
    by (intro exI [of _ w2] conjI run2 a2 b2)
  have h3: "\<not> next_call_fails (world_of pharmacy_db []) \<and>
          filter (\<lambda>r. D_Name r = ''Paracetamol'') (Drugs (working (world_of pharmacy_db []))) =
            hd (Drugs pharmacy_db) # [] \<and>
          stock_no (hd (Drugs pharmacy_db)) < 151"
    by (simp add: next_call_fails_def pharmacy_db_def empty_caches_def)
  from order_placement_failures [where pharmacy_id = 1 and name = "''Asha''" and items = "''Paracetamol''"
        and quantity = 151 and payment_method = "''COD''" and current_date = "''2025-01-01 10:00:00''"
        and w = "world_of pharmacy_db []" and r = "hd (Drugs pharmacy_db)" and rest = "[]",
        THEN conjunct2, THEN conjunct2, THEN conjunct2, THEN conjunct1, rule_format, OF h3]
  obtain w3 where run3: "add_new_order 1 ''Asha'' ''Paracetamol'' 151 ''COD'' ''2025-01-01 10:00:00''
            (world_of pharmacy_db []) =
          (Inr (False, Not_enough_stock 150), w3)"
    and a3: "committed w3 = pharmacy_db"
    and b3: "working w3 = pharmacy_db"
    unfolding s by (elim exE conjE) (simp add: pharmacy_db_def)
  show "\<exists>w'. add_new_order 1 ''Asha'' ''Paracetamol'' 151 ''COD'' ''2025-01-01 10:00:00''
            (world_of pharmacy_db []) =
          (Inr (False, Not_enough_stock 150), w') \<and>
        committed w' = pharmacy_db \<and> working w' = pharmacy_db"
    by (intro exI [of _ w3] conjI run3 a3 b3)
  have h4: "\<not> next_call_fails (world_of pharmacy_db [False, True]) \<and>
          filter (\<lambda>r. D_Name r = ''Paracetamol'') (Drugs (working (world_of pharmacy_db [False, True]))) =
            hd (Drugs pharmacy_db) # [] \<and>
          \<not> stock_no (hd (Drugs pharmacy_db)) < 5 \<and>
          next_call_fails (advance (world_of pharmacy_db [False, True]))"
    by (simp add: next_call_fails_def pharmacy_db_def empty_caches_def)
  from order_placement_failures [where pharmacy_id = 1 and name = "''Asha''" and items = "''Paracetamol''"
        and quantity = 5 and payment_method = "''COD''" and current_date = "''2025-01-01 10:00:00''"
        and w = "world_of pharmacy_db [False, True]" and r = "hd (Drugs pharmacy_db)" and rest = "[]",
        THEN conjunct2, THEN conjunct2, THEN conjunct2, THEN conjunct2, THEN conjunct1, rule_format, OF h4]
  obtain w4 where run4: "add_new_order 1 ''Asha'' ''Paracetamol'' 5 ''COD'' ''2025-01-01 10:00:00''
            (world_of pharmacy_db [False, True]) =
          (Inr (False, Error_updating_stock OperationalError), w4)"
    and a4: "committed w4 = pharmacy_db"
    and b4: "working w4 = pharmacy_db"
    unfolding s by (elim exE conjE) (simp add: pharmacy_db_def)
  show "\<exists>w'. add_new_order 1 ''Asha'' ''Paracetamol'' 5 ''COD'' ''2025-01-01 10:00:00''
            (world_of pharmacy_db [False, True]) =
          (Inr (False, Error_updating_stock OperationalError), w') \<and>
        committed w' = pharmacy_db \<and> working w' = pharmacy_db"
    by (intro exI [of _ w4] conjI run4 a4 b4)
  have h5: "\<not> next_call_fails (world_of pharmacy_db [False, False, True]) \<and>
          filter (\<lambda>r. D_Name r = ''Paracetamol'') (Drugs (working (world_of pharmacy_db [False, False, True]))) =
            hd (Drugs pharmacy_db) # [] \<and>
          \<not> stock_no (hd (Drugs pharmacy_db)) < 5 \<and>
          \<not> next_call_fails (advance (world_of pharmacy_db [False, False, True])) \<and>
          next_call_fails (advance (advance (world_of pharmacy_db [False, False, True])))"
    by (simp add: next_call_fails_def pharmacy_db_def empty_caches_def)
  from order_placement_failures [where pharmacy_id = 1 and name = "''Asha''" and items = "''Paracetamol''"
        and quantity = 5 and payment_method = "''COD''" and current_date = "''2025-01-01 10:00:00''"
        and w = "world_of pharmacy_db [False, False, True]" and r = "hd (Drugs pharmacy_db)" and rest = "[]",
        THEN conjunct2, THEN conjunct2, THEN conjunct2, THEN conjunct2, THEN conjunct2, THEN conjunct1, rule_format, OF h5]
  obtain w5 where run5: "add_new_order 1 ''Asha'' ''Paracetamol'' 5 ''COD'' ''2025-01-01 10:00:00''
            (world_of pharmacy_db [False, False, True]) =
          (Inr (False, Error_updating_stock OperationalError), w5)"
    and a5: "committed w5 = pharmacy_db"
    and b5: "map stock_no (Drugs (working w5)) = [145, 100, 101]"
    unfolding s by (elim exE conjE) (simp add: pharmacy_db_def)
  show "\<exists>w'. add_new_order 1 ''Asha'' ''Paracetamol'' 5 ''COD'' ''2025-01-01 10:00:00''
            (world_of pharmacy_db [False, False, True]) =
          (Inr (False, Error_updating_stock OperationalError), w') \<and>
        committed w' = pharmacy_db \<and> map stock_no (Drugs (working w')) = [145, 100, 101]"
    by (intro exI [of _ w5] conjI run5 a5 b5)
  have h6: "\<not> next_call_fails (world_of pharmacy_db [False, False, False, True]) \<and>
          filter (\<lambda>r. D_Name r = ''Paracetamol'') (Drugs (working (world_of pharmacy_db [False, False, False, True]))) =
            hd (Drugs pharmacy_db) # [] \<and>
          \<not> stock_no (hd (Drugs pharmacy_db)) < 5 \<and>
          \<not> next_call_fails (advance (world_of pharmacy_db [False, False, False, True])) \<and>
          \<not> next_call_fails (advance (advance (world_of pharmacy_db [False, False, False, True]))) \<and>
          next_call_fails (advance (advance (advance (world_of pharmacy_db [False, False, False, True]))))"
    by (simp add: next_call_fails_def pharmacy_db_def empty_caches_def)
  from order_placement_failures [where pharmacy_id = 1 and name = "''Asha''" and items = "''Paracetamol''"
        and quantity = 5 and payment_method = "''COD''" and current_date = "''2025-01-01 10:00:00''"
        and w = "world_of pharmacy_db [False, False, False, True]" and r = "hd (Drugs pharmacy_db)" and rest = "[]",
        THEN conjunct2, THEN conjunct2, THEN conjunct2, THEN conjunct2, THEN conjunct2, THEN conjunct2, THEN conjunct1, rule_format, OF h6]
  obtain w6 where run6: "add_new_order 1 ''Asha'' ''Paracetamol'' 5 ''COD'' ''2025-01-01 10:00:00''
            (world_of pharmacy_db [False, False, False, True]) =
          (Inr (False, Error OperationalError), w6)"
    and a6: "map stock_no (Drugs (committed w6)) = [145, 100, 101]"
    and b6: "Orders (committed w6) = []"
    unfolding s by (elim exE conjE) (simp add: pharmacy_db_def)
  show "\<exists>w'. add_new_order 1 ''Asha'' ''Paracetamol'' 5 ''COD'' ''2025-01-01 10:00:00''
            (world_of pharmacy_db [False, False, False, True]) =
          (Inr (False, Error OperationalError), w') \<and>
        map stock_no (Drugs (committed w')) = [145, 100, 101] \<and> Orders (committed w') = []"
    by (intro exI [of _ w6] conjI run6 a6 b6)
  have h7: "\<not> next_call_fails (world_of pharmacy_db [False, False, False, False, True]) \<and>
          filter (\<lambda>r. D_Name r = ''Paracetamol'') (Drugs (working (world_of pharmacy_db [False, False, False, False, True]))) =
            hd (Drugs pharmacy_db) # [] \<and>
          \<not> stock_no (hd (Drugs pharmacy_db)) < 5 \<and>
          \<not> next_call_fails (advance (world_of pharmacy_db [False, False, False, False, True])) \<and>
          \<not> next_call_fails (advance (advance (world_of pharmacy_db [False, False, False, False, True]))) \<and>
          \<not> next_call_fails (advance (advance (advance (world_of pharmacy_db [False, False, False, False, True])))) \<and>
          next_call_fails (advance (advance (advance (advance (world_of pharmacy_db [False, False, False, False, True])))))"
    by (simp add: next_call_fails_def pharmacy_db_def empty_caches_def)
  from order_placement_failures [where pharmacy_id = 1 and name = "''Asha''" and items = "''Paracetamol''"
        and quantity = 5 and payment_method = "''COD''" and current_date = "''2025-01-01 10:00:00''"
        and w = "world_of pharmacy_db [False, False, False, False, True]" and r = "hd (Drugs pharmacy_db)" and rest = "[]",
        THEN conjunct2, THEN conjunct2, THEN conjunct2, THEN conjunct2, THEN conjunct2, THEN conjunct2, THEN conjunct2, THEN conjunct1, rule_format, OF h7]
  obtain w7 where run7: "add_new_order 1 ''Asha'' ''Paracetamol'' 5 ''COD'' ''2025-01-01 10:00:00''
            (world_of pharmacy_db [False, False, False, False, True]) =
          (Inr (False, Error OperationalError), w7)"
    and a7: "map stock_no (Drugs (committed w7)) = [145, 100, 101]"
    and b7: "map O_Items (Orders (working w7)) = [''Paracetamol'']"
    unfolding s by (elim exE conjE) (simp add: pharmacy_db_def)
  show "\<exists>w'. add_new_order 1 ''Asha'' ''Paracetamol'' 5 ''COD'' ''2025-01-01 10:00:00''
            (world_of pharmacy_db [False, False, False, False, True]) =
          (Inr (False, Error OperationalError), w') \<and>
        map stock_no (Drugs (committed w')) = [145, 100, 101] \<and> map O_Items (Orders (working w')) = [''Paracetamol'']"
    by (intro exI [of _ w7] conjI run7 a7 b7)
  have h8: "\<not> next_call_fails (world_of pharmacy_db [False, False, False, False, False, True]) \<and>
          filter (\<lambda>r. D_Name r = ''Paracetamol'') (Drugs (working (world_of pharmacy_db [False, False, False, False, False, True]))) =
            hd (Drugs pharmacy_db) # [] \<and>
          \<not> stock_no (hd (Drugs pharmacy_db)) < 5 \<and>
          \<not> next_call_fails (advance (world_of pharmacy_db [False, False, False, False, False, True])) \<and>
          \<not> next_call_fails (advance (advance (world_of pharmacy_db [False, False, False, False, False, True]))) \<and>
          \<not> next_call_fails (advance (advance (advance (world_of pharmacy_db [False, False, False, False, False, True])))) \<and>
          \<not> next_call_fails (advance (advance (advance (advance (world_of pharmacy_db [False, False, False, False, False, True]))))) \<and>
          cached_fetch_payment_methods (cache (world_of pharmacy_db [False, False, False, False, False, True])) = None \<and>
          next_call_fails (advance (advance (advance (advance (advance (world_of pharmacy_db [False, False, False, False, False, True]))))))"
    by (simp add: next_call_fails_def pharmacy_db_def empty_caches_def)
  from order_placement_failures [where pharmacy_id = 1 and name = "''Asha''" and items = "''Paracetamol''"
        and quantity = 5 and payment_method = "''COD''" and current_date = "''2025-01-01 10:00:00''"
        and w = "world_of pharmacy_db [False, False, False, False, False, True]" and r = "hd (Drugs pharmacy_db)" and rest = "[]",
        THEN conjunct2, THEN conjunct2, THEN conjunct2, THEN conjunct2, THEN conjunct2, THEN conjunct2, THEN conjunct2, THEN conjunct2, rule_format, OF h8]
  obtain w8 where run8: "add_new_order 1 ''Asha'' ''Paracetamol'' 5 ''COD'' ''2025-01-01 10:00:00''
            (world_of pharmacy_db [False, False, False, False, False, True]) =
          (Inr (False, Error OperationalError), w8)"
    and a8: "map stock_no (Drugs (committed w8)) = [145, 100, 101]"
    and b8: "Orders (committed w8) = []"
    unfolding s by (elim exE conjE) (simp add: pharmacy_db_def)
  show "\<exists>w'. add_new_order 1 ''Asha'' ''Paracetamol'' 5 ''COD'' ''2025-01-01 10:00:00''
            (world_of pharmacy_db [False, False, False, False, False, True]) =
          (Inr (False, Error OperationalError), w') \<and>
        map stock_no (Drugs (committed w')) = [145, 100, 101] \<and> Orders (committed w') = []"
    by (intro exI [of _ w8] conjI run8 a8 b8)
qed

text \<open>
  A store failure that leaves partial state: the store fails at the insert of the order, the
  fourth call on the connection. Order placement reports failure, and the committed stock of
  Paracetamol has gone from 150 to 145 although no order exists.
\<close>

theorem stock_decrement_survives_failed_order:
  "fst (add_new_order 1 ''Asha'' ''Paracetamol'' 5 ''COD'' ''2025-01-01 10:00:00''
          (world_of pharmacy_db [False, False, False, True])) =
     Inr (False, Error OperationalError) \<and>
   map stock_no (Drugs (committed (world_of pharmacy_db [False, False, False, True]))) =
     [150, 100, 101] \<and>
   map stock_no (Drugs (committed (snd (add_new_order 1 ''Asha'' ''Paracetamol'' 5 ''COD'' ''2025-01-01 10:00:00''
          (world_of pharmacy_db [False, False, False, True]))))) =
     [145, 100, 101] \<and>
   Orders (committed (snd (add_new_order 1 ''Asha'' ''Paracetamol'' 5 ''COD'' ''2025-01-01 10:00:00''
          (world_of pharmacy_db [False, False, False, True])))) = [] \<and>
   Orders (working (snd (add_new_order 1 ''Asha'' ''Paracetamol'' 5 ''COD'' ''2025-01-01 10:00:00''
          (world_of pharmacy_db [False, False, False, True])))) = []"
  unfolding add_new_order_defs
  by (simp add: io_defs next_call_fails_def pharmacy_db_def)

lemma add_new_order_never_succeeds:
  "fst (add_new_order pharmacy_id name items quantity payment_method current_date w) \<noteq>
     Inr (True, m)"
  unfolding add_new_order_defs
  by (auto simp add: io_defs simp del: set_map set_filter split: list.splits option.splits)


text \<open>
  C1. Placing an order for 5 units of Paracetamol (price 10, stock 150) with a store that
  does not fail: the stock goes to 145 and is committed, the Orders row is inserted, and then
  the call of the undefined \<open>create_payment\<close> raises NameError. The function reports failure
  with that error; no Payments row exists, neither committed nor pending, and the Orders row
  is left uncommitted in the connection's open transaction.
\<close>

theorem order_without_payment:
  "fst (add_new_order 1 ''Asha'' ''Paracetamol'' 5 ''COD'' ''2025-01-01 10:00:00''
          (world_of pharmacy_db [])) =
     Inr (False, Error (NameError ''create_payment'')) \<and>
   map stock_no (Drugs (committed (snd (add_new_order 1 ''Asha'' ''Paracetamol'' 5 ''COD''
          ''2025-01-01 10:00:00'' (world_of pharmacy_db []))))) = [145, 100, 101] \<and>
   Payments (committed (snd (add_new_order 1 ''Asha'' ''Paracetamol'' 5 ''COD''
          ''2025-01-01 10:00:00'' (world_of pharmacy_db [])))) = [] \<and>
   Payments (working (snd (add_new_order 1 ''Asha'' ''Paracetamol'' 5 ''COD''
          ''2025-01-01 10:00:00'' (world_of pharmacy_db [])))) = [] \<and>
   Orders (committed (snd (add_new_order 1 ''Asha'' ''Paracetamol'' 5 ''COD''
          ''2025-01-01 10:00:00'' (world_of pharmacy_db [])))) = [] \<and>
   map O_Items (Orders (working (snd (add_new_order 1 ''Asha'' ''Paracetamol'' 5 ''COD''
          ''2025-01-01 10:00:00'' (world_of pharmacy_db []))))) = [''Paracetamol''] \<and>
   fst (order_amount ''Paracetamol'' 5 (world_of pharmacy_db [])) = Inr 50"
  unfolding add_new_order_defs
  by (simp add: io_defs pharmacy_db_def empty_caches_def)

subsection \<open>Payment amounts\<close>








end
